theory Spec2Isabelle
  imports Complex_Main "HOL-Library.Word" "HOL-Library.Signed_Division"
begin

unbundle bit_operations_syntax

section \<open>uStreamer capture device (src/device.c): data model\<close>

text \<open>
  The embedding follows src/device.c function by function.  C's \<open>unsigned\<close> and
  \<open>__u32\<close> are \<open>32 word\<close>; \<open>int\<close> and \<open>__s32\<close> values that the code compares or
  divides are \<open>32 word\<close> read with \<open>sint\<close>; \<open>size_t\<close>, pointers and \<open>v4l2_std_id\<close>
  are \<open>64 word\<close>.  Return codes of functions and of system calls are only ever
  compared with 0, so they are \<open>int\<close>.  The leading underscore of the static
  functions is dropped (\<open>_device_open_format\<close> is \<open>device_open_format\<close>), and a
  field name that two structs share gets its struct as a prefix.

  Logging (\<open>LOG_*\<close>) writes to the log only and is left out, so the \<open>quiet\<close> and
  \<open>name\<close> parameters have no effect in the model.  Each \<open>A_MUTEX_LOCK\<close> is
  followed by its \<open>A_MUTEX_UNLOCK\<close> on every path, so in this sequential model the
  per-buffer mutex has no effect either.
\<close>

type_synonym u32 = "32 word"
type_synonym s32 = "32 word"
type_synonym u64 = "64 word"
type_synonym size_t = "64 word"

text \<open>The ways the process can die instead of returning: a trapping integer
  division, a failed \<open>assert\<close>, and an access outside an array.\<close>

datatype fault = SIGFPE | SIGABRT | OutOfBounds

subsection \<open>Structures of linux/videodev2.h (the fields device.c reads or writes)\<close>

record v4l2_capability =
  capabilities :: u32

record v4l2_pix_format =
  pix_width :: u32
  pix_height :: u32
  pixelformat :: u32
  pix_field :: u32
  sizeimage :: u32

record v4l2_bt_timings =
  bt_width :: u32
  bt_height :: u32
  pixelclock :: u64

record v4l2_streamparm =
  parm_type :: u32
  parm_capability :: u32
  numerator :: u32
  denominator :: u32

record v4l2_requestbuffers =
  req_count :: u32
  req_type :: u32
  req_memory :: u32

record v4l2_buffer =
  buf_index :: u32
  buf_type :: u32
  bytesused :: u32
  buf_flags :: u32
  buf_sequence :: u32
  buf_memory :: u32
  buf_m :: u64
  buf_length :: u32

record v4l2_queryctrl =
  query_id :: u32
  minimum :: s32
  maximum :: s32
  step :: s32
  default_value :: s32
  query_flags :: u32

record v4l2_control =
  ctl_id :: u32
  ctl_value :: s32

definition V4L2_BUF_TYPE_VIDEO_CAPTURE :: u32 where "V4L2_BUF_TYPE_VIDEO_CAPTURE = 1"
definition V4L2_MEMORY_MMAP :: u32 where "V4L2_MEMORY_MMAP = 1"
definition V4L2_MEMORY_USERPTR :: u32 where "V4L2_MEMORY_USERPTR = 2"
definition V4L2_FIELD_ANY :: u32 where "V4L2_FIELD_ANY = 0"
definition V4L2_STD_UNKNOWN :: u64 where "V4L2_STD_UNKNOWN = 0"
definition V4L2_CAP_VIDEO_CAPTURE :: u32 where "V4L2_CAP_VIDEO_CAPTURE = 0x00000001"
definition V4L2_CAP_STREAMING :: u32 where "V4L2_CAP_STREAMING = 0x04000000"
definition V4L2_CAP_TIMEPERFRAME :: u32 where "V4L2_CAP_TIMEPERFRAME = 0x1000"
definition V4L2_CTRL_FLAG_DISABLED :: u32 where "V4L2_CTRL_FLAG_DISABLED = 0x0001"
definition V4L2_EVENT_EOS :: u32 where "V4L2_EVENT_EOS = 2"
definition V4L2_EVENT_SOURCE_CHANGE :: u32 where "V4L2_EVENT_SOURCE_CHANGE = 5"
definition MAP_FAILED :: u64 where "MAP_FAILED = - 1"
definition NULL :: u64 where "NULL = 0"

definition v4l2_fourcc :: "char \<Rightarrow> char \<Rightarrow> char \<Rightarrow> char \<Rightarrow> u32" where
  "v4l2_fourcc a b c d =
     of_char a OR push_bit 8 (of_char b) OR push_bit 16 (of_char c) OR push_bit 24 (of_char d)"

definition V4L2_PIX_FMT_YUYV :: u32 where
  "V4L2_PIX_FMT_YUYV = v4l2_fourcc CHR ''Y'' CHR ''U'' CHR ''Y'' CHR ''V''"
definition V4L2_PIX_FMT_UYVY :: u32 where
  "V4L2_PIX_FMT_UYVY = v4l2_fourcc CHR ''U'' CHR ''Y'' CHR ''V'' CHR ''Y''"
definition V4L2_PIX_FMT_RGB565 :: u32 where
  "V4L2_PIX_FMT_RGB565 = v4l2_fourcc CHR ''R'' CHR ''G'' CHR ''B'' CHR ''P''"
definition V4L2_PIX_FMT_RGB24 :: u32 where
  "V4L2_PIX_FMT_RGB24 = v4l2_fourcc CHR ''R'' CHR ''G'' CHR ''B'' CHR ''3''"
definition V4L2_PIX_FMT_MJPEG :: u32 where
  "V4L2_PIX_FMT_MJPEG = v4l2_fourcc CHR ''M'' CHR ''J'' CHR ''P'' CHR ''G''"
definition V4L2_PIX_FMT_JPEG :: u32 where
  "V4L2_PIX_FMT_JPEG = v4l2_fourcc CHR ''J'' CHR ''P'' CHR ''E'' CHR ''G''"

definition V4L2_CID_BASE :: u32 where "V4L2_CID_BASE = 0x00980900"
definition V4L2_CID_BRIGHTNESS :: u32 where "V4L2_CID_BRIGHTNESS = V4L2_CID_BASE + 0"
definition V4L2_CID_CONTRAST :: u32 where "V4L2_CID_CONTRAST = V4L2_CID_BASE + 1"
definition V4L2_CID_SATURATION :: u32 where "V4L2_CID_SATURATION = V4L2_CID_BASE + 2"
definition V4L2_CID_HUE :: u32 where "V4L2_CID_HUE = V4L2_CID_BASE + 3"
definition V4L2_CID_AUTO_WHITE_BALANCE :: u32 where "V4L2_CID_AUTO_WHITE_BALANCE = V4L2_CID_BASE + 12"
definition V4L2_CID_GAMMA :: u32 where "V4L2_CID_GAMMA = V4L2_CID_BASE + 16"
definition V4L2_CID_AUTOGAIN :: u32 where "V4L2_CID_AUTOGAIN = V4L2_CID_BASE + 18"
definition V4L2_CID_GAIN :: u32 where "V4L2_CID_GAIN = V4L2_CID_BASE + 19"
definition V4L2_CID_HFLIP :: u32 where "V4L2_CID_HFLIP = V4L2_CID_BASE + 20"
definition V4L2_CID_VFLIP :: u32 where "V4L2_CID_VFLIP = V4L2_CID_BASE + 21"
definition V4L2_CID_HUE_AUTO :: u32 where "V4L2_CID_HUE_AUTO = V4L2_CID_BASE + 25"
definition V4L2_CID_WHITE_BALANCE_TEMPERATURE :: u32 where
  "V4L2_CID_WHITE_BALANCE_TEMPERATURE = V4L2_CID_BASE + 26"
definition V4L2_CID_SHARPNESS :: u32 where "V4L2_CID_SHARPNESS = V4L2_CID_BASE + 27"
definition V4L2_CID_BACKLIGHT_COMPENSATION :: u32 where
  "V4L2_CID_BACKLIGHT_COMPENSATION = V4L2_CID_BASE + 28"
definition V4L2_CID_COLORFX :: u32 where "V4L2_CID_COLORFX = V4L2_CID_BASE + 31"
definition V4L2_CID_AUTOBRIGHTNESS :: u32 where "V4L2_CID_AUTOBRIGHTNESS = V4L2_CID_BASE + 32"

text \<open>\<open>MEMSET_ZERO\<close> of a \<open>struct v4l2_buffer\<close>.\<close>

definition zero_v4l2_buffer :: v4l2_buffer where
  "zero_v4l2_buffer = \<lparr>buf_index = 0, buf_type = 0, bytesused = 0, buf_flags = 0,
     buf_sequence = 0, buf_memory = 0, buf_m = 0, buf_length = 0\<rparr>"

subsection \<open>Structures of device.h and picture.h, as device.c uses them\<close>

datatype control_mode_t = CTL_MODE_NONE | CTL_MODE_VALUE | CTL_MODE_AUTO | CTL_MODE_DEFAULT

record control_t =
  mode :: control_mode_t
  val :: s32

record controls_t =
  brightness :: control_t
  contrast :: control_t
  saturation :: control_t
  hue :: control_t
  gamma :: control_t
  sharpness :: control_t
  backlight_compensation :: control_t
  white_balance :: control_t
  gain :: control_t
  color_effect :: control_t
  flip_vertical :: control_t
  flip_horizontal :: control_t

record hw_buffer_t =
  data :: u64
  used :: size_t
  allocated :: size_t
  grabbed :: bool
  buf_info :: v4l2_buffer

record picture_t =
  picture_allocated :: size_t
  grab_ts :: real

text \<open>The arrays \<open>hw_buffers\<close> and \<open>pictures\<close> are lists; the empty list stands for
  the \<open>NULL\<close> pointer (an allocated array has at least one element, since a grant
  of no buffer is refused before the allocation).\<close>

record device_runtime_t =
  fd :: int
  run_width :: u32
  run_height :: u32
  run_format :: u32
  hw_fps :: u32
  raw_size :: size_t
  run_n_buffers :: u32
  run_n_workers :: u32
  hw_buffers :: "hw_buffer_t list"
  pictures :: "picture_t list"
  capturing :: bool

record device_t =
  path :: string
  input :: u32
  width :: u32
  height :: u32
  format :: u32
  standard :: u64
  dv_timings :: bool
  n_buffers :: u32
  n_workers :: u32
  desired_fps :: u32
  min_frame_size :: size_t
  timeout :: u32
  error_delay :: u32
  io_method :: u32
  ctl :: controls_t
  run :: device_runtime_t

subsection \<open>The world outside device.c\<close>

text \<open>
  Everything device.c calls or reads that is defined elsewhere is a field of one
  record.  The system calls work on a state \<open>'k\<close> of the kernel and the
  allocator, which every call takes and returns; \<open>xioctl\<close> is one such call, and
  gives back its return code and the structure it was passed, as the driver
  left it.  The constants \<open>VIDEO_MAX_WIDTH\<close> and \<open>VIDEO_MAX_HEIGHT\<close> of device.h
  and the helpers \<open>align_size\<close> (tools.h) and \<open>picture_get_generous_size\<close>
  (picture.h) are not part of src/device.c and are fields too.
\<close>

record 'k env =
  VIDEO_MAX_WIDTH :: u32
  VIDEO_MAX_HEIGHT :: u32
  getpagesize :: u32
  align_size :: "size_t \<Rightarrow> u32 \<Rightarrow> u32"
  picture_get_generous_size :: "u32 \<Rightarrow> u32 \<Rightarrow> size_t"
  get_now_monotonic :: "'k \<Rightarrow> real"
  sys_open :: "'k \<Rightarrow> string \<Rightarrow> int \<times> 'k"
  sys_close :: "'k \<Rightarrow> int \<Rightarrow> int \<times> 'k"
  sys_mmap :: "'k \<Rightarrow> u32 \<Rightarrow> int \<Rightarrow> u64 \<Rightarrow> u64 \<times> 'k"
  sys_munmap :: "'k \<Rightarrow> u64 \<Rightarrow> size_t \<Rightarrow> int \<times> 'k"
  sys_aligned_alloc :: "'k \<Rightarrow> u32 \<Rightarrow> u32 \<Rightarrow> u64 \<times> 'k"
  sys_free :: "'k \<Rightarrow> u64 \<Rightarrow> 'k"
  VIDIOC_QUERYCAP :: "'k \<Rightarrow> int \<Rightarrow> v4l2_capability \<Rightarrow> int \<times> v4l2_capability \<times> 'k"
  VIDIOC_S_INPUT :: "'k \<Rightarrow> int \<Rightarrow> s32 \<Rightarrow> int \<times> s32 \<times> 'k"
  VIDIOC_S_STD :: "'k \<Rightarrow> int \<Rightarrow> u64 \<Rightarrow> int \<times> u64 \<times> 'k"
  VIDIOC_QUERYSTD :: "'k \<Rightarrow> int \<Rightarrow> u64 \<Rightarrow> int \<times> u64 \<times> 'k"
  VIDIOC_QUERY_DV_TIMINGS :: "'k \<Rightarrow> int \<Rightarrow> v4l2_bt_timings \<Rightarrow> int \<times> v4l2_bt_timings \<times> 'k"
  VIDIOC_S_DV_TIMINGS :: "'k \<Rightarrow> int \<Rightarrow> v4l2_bt_timings \<Rightarrow> int \<times> v4l2_bt_timings \<times> 'k"
  VIDIOC_SUBSCRIBE_EVENT :: "'k \<Rightarrow> int \<Rightarrow> u32 \<Rightarrow> int \<times> 'k"
  VIDIOC_DQEVENT :: "'k \<Rightarrow> int \<Rightarrow> int \<times> u32 \<times> 'k"
  VIDIOC_S_FMT :: "'k \<Rightarrow> int \<Rightarrow> v4l2_pix_format \<Rightarrow> int \<times> v4l2_pix_format \<times> 'k"
  VIDIOC_G_PARM :: "'k \<Rightarrow> int \<Rightarrow> v4l2_streamparm \<Rightarrow> int \<times> v4l2_streamparm \<times> 'k"
  VIDIOC_S_PARM :: "'k \<Rightarrow> int \<Rightarrow> v4l2_streamparm \<Rightarrow> int \<times> v4l2_streamparm \<times> 'k"
  VIDIOC_REQBUFS :: "'k \<Rightarrow> int \<Rightarrow> v4l2_requestbuffers \<Rightarrow> int \<times> v4l2_requestbuffers \<times> 'k"
  VIDIOC_QUERYBUF :: "'k \<Rightarrow> int \<Rightarrow> v4l2_buffer \<Rightarrow> int \<times> v4l2_buffer \<times> 'k"
  VIDIOC_QBUF :: "'k \<Rightarrow> int \<Rightarrow> v4l2_buffer \<Rightarrow> int \<times> v4l2_buffer \<times> 'k"
  VIDIOC_DQBUF :: "'k \<Rightarrow> int \<Rightarrow> v4l2_buffer \<Rightarrow> int \<times> v4l2_buffer \<times> 'k"
  VIDIOC_STREAMON :: "'k \<Rightarrow> int \<Rightarrow> u32 \<Rightarrow> int \<times> 'k"
  VIDIOC_STREAMOFF :: "'k \<Rightarrow> int \<Rightarrow> u32 \<Rightarrow> int \<times> 'k"
  VIDIOC_QUERYCTRL :: "'k \<Rightarrow> int \<Rightarrow> v4l2_queryctrl \<Rightarrow> int \<times> v4l2_queryctrl \<times> 'k"
  VIDIOC_S_CTRL :: "'k \<Rightarrow> int \<Rightarrow> v4l2_control \<Rightarrow> int \<times> v4l2_control \<times> 'k"

section \<open>Streaming controller\<close>

text \<open>\<open>device_switch_capturing\<close> (device.c, 248-264).\<close>

definition device_switch_capturing ::
  "'k env \<Rightarrow> device_t \<Rightarrow> bool \<Rightarrow> 'k \<Rightarrow> int \<times> device_t \<times> 'k" where
  "device_switch_capturing e dev enable k =
     (if enable \<noteq> capturing (run dev) then
        (let (ret, k') = (if enable then VIDIOC_STREAMON e else VIDIOC_STREAMOFF e)
                            k (fd (run dev)) V4L2_BUF_TYPE_VIDEO_CAPTURE
         in if ret < 0 \<and> enable then (- 1, dev, k')
            else (0, dev\<lparr>run := (run dev)\<lparr>capturing := enable\<rparr>\<rparr>, k'))
      else (0, dev, k))"

text \<open>\<open>device_consume_event\<close> (device.c, 360-377).  The function changes
  nothing in \<open>dev\<close>, so it returns its code and the kernel state.\<close>

definition device_consume_event :: "'k env \<Rightarrow> device_t \<Rightarrow> 'k \<Rightarrow> int \<times> 'k" where
  "device_consume_event e dev k =
     (let (ret, event_type, k') = VIDIOC_DQEVENT e k (fd (run dev))
      in if ret = 0 then
           (if event_type = V4L2_EVENT_SOURCE_CHANGE then (- 1, k')
            else if event_type = V4L2_EVENT_EOS then (0, k')
            else (0, k'))
         else (0, k'))"

section \<open>Resolution validation\<close>

text \<open>\<open>_device_apply_resolution\<close> (device.c, 722-736).\<close>

definition device_apply_resolution ::
  "'k env \<Rightarrow> device_t \<Rightarrow> u32 \<Rightarrow> u32 \<Rightarrow> int \<times> device_t" where
  "device_apply_resolution e dev w h =
     (if w = 0 \<or> w > VIDEO_MAX_WIDTH e \<or> h = 0 \<or> h > VIDEO_MAX_HEIGHT e
      then (- 1, dev)
      else (0, dev\<lparr>run := (run dev)\<lparr>run_width := w, run_height := h\<rparr>\<rparr>))"

section \<open>Grab and release\<close>

text \<open>\<open>device_grab_buffer\<close> (device.c, 299-339).  The source guards the index
  with \<open>n_buffers\<close> only; an index that passes the guard but lies outside the
  array is an access outside it.  The returned \<open>int\<close> is the \<open>unsigned\<close> index
  converted.\<close>

definition device_grab_buffer ::
  "'k env \<Rightarrow> device_t \<Rightarrow> 'k \<Rightarrow> fault + (int \<times> device_t \<times> 'k)" where
  "device_grab_buffer e dev k =
     (let (ret, info, k') = VIDIOC_DQBUF e k (fd (run dev))
            (zero_v4l2_buffer\<lparr>buf_type := V4L2_BUF_TYPE_VIDEO_CAPTURE,
                               buf_memory := io_method dev\<rparr>);
          i = unat (buf_index info);
          hws = hw_buffers (run dev);
          pics = pictures (run dev)
      in if ret < 0 then Inr (- 1, dev, k')
         else if buf_index info \<ge> run_n_buffers (run dev) then Inr (- 1, dev, k')
         else if i \<ge> length hws then Inl OutOfBounds
         else if grabbed (hws ! i) then Inr (- 1, dev, k')
         else if i \<ge> length pics then Inl OutOfBounds
         else Inr (sint (buf_index info),
                   dev\<lparr>run := (run dev)\<lparr>
                     hw_buffers := hws[i := (hws ! i)\<lparr>grabbed := True,
                                      used := ucast (bytesused info), buf_info := info\<rparr>],
                     pictures := pics[i := (pics ! i)\<lparr>grab_ts := get_now_monotonic e k'\<rparr>]\<rparr>\<rparr>,
                   k'))"

text \<open>\<open>device_release_buffer\<close> (device.c, 341-358).  The source does not check
  \<open>index\<close>.  \<open>VIDIOC_QBUF\<close> is passed the slot's own descriptor, so what the
  driver leaves in it stays in the slot.\<close>

definition device_release_buffer ::
  "'k env \<Rightarrow> device_t \<Rightarrow> u32 \<Rightarrow> 'k \<Rightarrow> fault + (int \<times> device_t \<times> 'k)" where
  "device_release_buffer e dev index k =
     (let i = unat index; hws = hw_buffers (run dev)
      in if i \<ge> length hws then Inl OutOfBounds
         else
           (let (ret, info, k') = VIDIOC_QBUF e k (fd (run dev)) (buf_info (hws ! i));
                hw = (hws ! i)\<lparr>buf_info := info\<rparr>
            in if ret < 0
               then Inr (- 1, dev\<lparr>run := (run dev)\<lparr>hw_buffers := hws[i := hw]\<rparr>\<rparr>, k')
               else Inr (0, dev\<lparr>run := (run dev)\<lparr>hw_buffers :=
                              hws[i := hw\<lparr>grabbed := False, used := 0\<rparr>]\<rparr>\<rparr>, k')))"

section \<open>Control applier\<close>

text \<open>\<open>_device_query_control\<close> (device.c, 793-805).\<close>

definition device_query_control ::
  "'k env \<Rightarrow> device_t \<Rightarrow> u32 \<Rightarrow> bool \<Rightarrow> 'k \<Rightarrow> int \<times> v4l2_queryctrl \<times> 'k" where
  "device_query_control e dev cid quiet k =
     (let (ret, query, k') = VIDIOC_QUERYCTRL e k (fd (run dev))
            \<lparr>query_id = cid, minimum = 0, maximum = 0, step = 0, default_value = 0,
             query_flags = 0\<rparr>
      in if ret < 0 \<or> query_flags query AND V4L2_CTRL_FLAG_DISABLED \<noteq> 0
         then (- 1, query, k') else (0, query, k'))"

text \<open>C's \<open>a % b\<close> on \<open>int\<close>: the remainder of the division that truncates towards
  zero.  Its behaviour is undefined when \<open>b\<close> is 0 and when the quotient is not
  representable (\<open>INT_MIN % -1\<close>); on x86 both raise \<open>SIGFPE\<close>.  The model
  reports either as that fault.  In \<open>struct v4l2_queryctrl\<close> the fields minimum,
  maximum, step and default_value are all \<open>__s32\<close>, so the comparisons and the
  remainder of \<open>_device_set_control\<close> are signed.\<close>

definition INT_MIN :: s32 where "INT_MIN = 0x80000000"

definition c_rem :: "s32 \<Rightarrow> s32 \<Rightarrow> fault + s32" where
  "c_rem a b =
     (if b = 0 \<or> (a = INT_MIN \<and> b = - 1) then Inl SIGFPE
      else Inr (word_of_int (sint a smod sint b)))"

text \<open>\<open>_device_set_control\<close> (device.c, 807-829).  The condition is evaluated
  left to right and stops at the first true disjunct, so the remainder is only
  computed for a value within the bounds.  The return code of \<open>VIDIOC_S_CTRL\<close>
  only selects the log message.\<close>

definition device_set_control ::
  "'k env \<Rightarrow> device_t \<Rightarrow> v4l2_queryctrl \<Rightarrow> u32 \<Rightarrow> s32 \<Rightarrow> bool \<Rightarrow> 'k \<Rightarrow> fault + 'k" where
  "device_set_control e dev query cid v quiet k =
     (if v <s minimum query \<or> maximum query <s v then Inr k
      else (case c_rem v (step query) of
              Inl f \<Rightarrow> Inl f
            | Inr r \<Rightarrow>
                if r \<noteq> 0 then Inr k
                else (let (ret, c, k') = VIDIOC_S_CTRL e k (fd (run dev))
                                           \<lparr>ctl_id = cid, ctl_value = v\<rparr>
                      in Inr k')))"

text \<open>Sequencing of steps that can kill the process.\<close>

definition and_then :: "fault + 'a \<Rightarrow> ('a \<Rightarrow> fault + 'b) \<Rightarrow> fault + 'b" where
  "and_then r f = (case r of Inl x \<Rightarrow> Inl x | Inr a \<Rightarrow> f a)"

text \<open>The macros of \<open>_device_apply_controls\<close> (device.c, 738-791).\<close>

definition SET_CID_VALUE ::
  "'k env \<Rightarrow> device_t \<Rightarrow> u32 \<Rightarrow> s32 \<Rightarrow> bool \<Rightarrow> 'k \<Rightarrow> fault + 'k" where
  "SET_CID_VALUE e dev cid v quiet k =
     (let (r, query, k') = device_query_control e dev cid quiet k
      in if r = 0 then device_set_control e dev query cid v quiet k' else Inr k')"

definition SET_CID_DEFAULT ::
  "'k env \<Rightarrow> device_t \<Rightarrow> u32 \<Rightarrow> bool \<Rightarrow> 'k \<Rightarrow> fault + 'k" where
  "SET_CID_DEFAULT e dev cid quiet k =
     (let (r, query, k') = device_query_control e dev cid quiet k
      in if r = 0 then device_set_control e dev query cid (default_value query) quiet k'
         else Inr k')"

definition CONTROL_MANUAL_CID ::
  "'k env \<Rightarrow> device_t \<Rightarrow> u32 \<Rightarrow> control_t \<Rightarrow> 'k \<Rightarrow> fault + 'k" where
  "CONTROL_MANUAL_CID e dev cid c k =
     (if mode c = CTL_MODE_VALUE then SET_CID_VALUE e dev cid (val c) False k
      else if mode c = CTL_MODE_DEFAULT then SET_CID_DEFAULT e dev cid False k
      else Inr k)"

definition CONTROL_AUTO_CID ::
  "'k env \<Rightarrow> device_t \<Rightarrow> u32 \<Rightarrow> u32 \<Rightarrow> control_t \<Rightarrow> 'k \<Rightarrow> fault + 'k" where
  "CONTROL_AUTO_CID e dev cid_auto cid_manual c k =
     (if mode c = CTL_MODE_VALUE then
        and_then (SET_CID_VALUE e dev cid_auto 0 True k)
          (SET_CID_VALUE e dev cid_manual (val c) False)
      else if mode c = CTL_MODE_AUTO then SET_CID_VALUE e dev cid_auto 1 False k
      else if mode c = CTL_MODE_DEFAULT then
        and_then (SET_CID_VALUE e dev cid_auto 0 True k) (\<lambda>k1.
        and_then (SET_CID_DEFAULT e dev cid_manual False k1)
          (SET_CID_DEFAULT e dev cid_auto False))
      else Inr k)"

definition device_apply_controls :: "'k env \<Rightarrow> device_t \<Rightarrow> 'k \<Rightarrow> fault + 'k" where
  "device_apply_controls e dev k =
     and_then (CONTROL_AUTO_CID e dev V4L2_CID_AUTOBRIGHTNESS V4L2_CID_BRIGHTNESS
                 (brightness (ctl dev)) k) (\<lambda>k.
     and_then (CONTROL_MANUAL_CID e dev V4L2_CID_CONTRAST (contrast (ctl dev)) k) (\<lambda>k.
     and_then (CONTROL_MANUAL_CID e dev V4L2_CID_SATURATION (saturation (ctl dev)) k) (\<lambda>k.
     and_then (CONTROL_AUTO_CID e dev V4L2_CID_HUE_AUTO V4L2_CID_HUE (hue (ctl dev)) k) (\<lambda>k.
     and_then (CONTROL_MANUAL_CID e dev V4L2_CID_GAMMA (gamma (ctl dev)) k) (\<lambda>k.
     and_then (CONTROL_MANUAL_CID e dev V4L2_CID_SHARPNESS (sharpness (ctl dev)) k) (\<lambda>k.
     and_then (CONTROL_MANUAL_CID e dev V4L2_CID_BACKLIGHT_COMPENSATION
                 (backlight_compensation (ctl dev)) k) (\<lambda>k.
     and_then (CONTROL_AUTO_CID e dev V4L2_CID_AUTO_WHITE_BALANCE
                 V4L2_CID_WHITE_BALANCE_TEMPERATURE (white_balance (ctl dev)) k) (\<lambda>k.
     and_then (CONTROL_AUTO_CID e dev V4L2_CID_AUTOGAIN V4L2_CID_GAIN (gain (ctl dev)) k) (\<lambda>k.
     and_then (CONTROL_MANUAL_CID e dev V4L2_CID_COLORFX (color_effect (ctl dev)) k) (\<lambda>k.
     and_then (CONTROL_MANUAL_CID e dev V4L2_CID_VFLIP (flip_vertical (ctl dev)) k) (\<lambda>k.
     CONTROL_MANUAL_CID e dev V4L2_CID_HFLIP (flip_horizontal (ctl dev)) k)))))))))))"

section \<open>Negotiation pipeline\<close>

text \<open>\<open>_device_open_check_cap\<close> (device.c, 379-417).\<close>

definition device_open_check_cap :: "'k env \<Rightarrow> device_t \<Rightarrow> 'k \<Rightarrow> int \<times> device_t \<times> 'k" where
  "device_open_check_cap e dev k =
     (let (ret, cap, k1) = VIDIOC_QUERYCAP e k (fd (run dev)) \<lparr>capabilities = 0\<rparr>
      in if ret < 0 then (- 1, dev, k1)
         else if capabilities cap AND V4L2_CAP_VIDEO_CAPTURE = 0 then (- 1, dev, k1)
         else if capabilities cap AND V4L2_CAP_STREAMING = 0 then (- 1, dev, k1)
         else
           (let (ret, inp, k2) = VIDIOC_S_INPUT e k1 (fd (run dev)) (input dev)
            in if ret < 0 then (- 1, dev, k2)
               else if standard dev \<noteq> V4L2_STD_UNKNOWN then
                 (let (ret, std, k3) = VIDIOC_S_STD e k2 (fd (run dev)) (standard dev);
                      dev1 = dev\<lparr>standard := std\<rparr>
                  in if ret < 0 then (- 1, dev1, k3) else (0, dev1, k3))
               else (0, dev, k2)))"

text \<open>\<open>_device_apply_dv_timings\<close> (device.c, 442-473).\<close>

definition device_apply_dv_timings :: "'k env \<Rightarrow> device_t \<Rightarrow> 'k \<Rightarrow> int \<times> device_t \<times> 'k" where
  "device_apply_dv_timings e dev k =
     (let (ret, dv, k1) = VIDIOC_QUERY_DV_TIMINGS e k (fd (run dev))
                            \<lparr>bt_width = 0, bt_height = 0, pixelclock = 0\<rparr>
      in if ret = 0 then
           (let (ret, dv', k2) = VIDIOC_S_DV_TIMINGS e k1 (fd (run dev)) dv
            in if ret < 0 then (- 1, dev, k2)
               else (let (r, dev1) = device_apply_resolution e dev (bt_width dv') (bt_height dv')
                     in if r < 0 then (- 1, dev1, k2) else (0, dev1, k2)))
         else
           (let (ret, std, k2) = VIDIOC_QUERYSTD e k1 (fd (run dev)) (standard dev);
                dev1 = dev\<lparr>standard := std\<rparr>
            in if ret = 0 then
                 (let (ret, std', k3) = VIDIOC_S_STD e k2 (fd (run dev1)) (standard dev1);
                      dev2 = dev1\<lparr>standard := std'\<rparr>
                  in if ret < 0 then (- 1, dev2, k3) else (0, dev2, k3))
               else (0, dev1, k2)))"

text \<open>\<open>_device_open_dv_timings\<close> (device.c, 419-440).  The source calls
  \<open>_device_apply_resolution\<close> on the configured resolution as a statement: its
  return code is dropped.\<close>

definition device_open_dv_timings :: "'k env \<Rightarrow> device_t \<Rightarrow> 'k \<Rightarrow> int \<times> device_t \<times> 'k" where
  "device_open_dv_timings e dev k =
     (let (r0, dev1) = device_apply_resolution e dev (width dev) (height dev)
      in if dv_timings dev1 then
           (let (r, dev2, k1) = device_apply_dv_timings e dev1 k
            in if r < 0 then (- 1, dev2, k1)
               else (let (ret, k2) = VIDIOC_SUBSCRIBE_EVENT e k1 (fd (run dev2))
                                       V4L2_EVENT_SOURCE_CHANGE
                     in if ret < 0 then (- 1, dev2, k2) else (0, dev2, k2)))
         else (0, dev1, k))"

text \<open>The table \<open>_FORMATS\<close> and \<open>_format_to_string_nullable\<close> (device.c, 59-69 and
  848-855): the name of the first entry with the given code, \<open>None\<close> for the
  \<open>NULL\<close> that ends an unsuccessful search.\<close>

definition FORMATS :: "(string \<times> u32) list" where
  "FORMATS = [(''YUYV'', V4L2_PIX_FMT_YUYV), (''UYVY'', V4L2_PIX_FMT_UYVY),
              (''RGB565'', V4L2_PIX_FMT_RGB565), (''RGB24'', V4L2_PIX_FMT_RGB24),
              (''JPEG'', V4L2_PIX_FMT_MJPEG), (''JPEG'', V4L2_PIX_FMT_JPEG)]"

fun format_search :: "(string \<times> u32) list \<Rightarrow> u32 \<Rightarrow> string option" where
  "format_search [] fmt = None"
| "format_search ((name, code) # rest) fmt =
     (if fmt = code then Some name else format_search rest fmt)"

definition format_to_string_nullable :: "u32 \<Rightarrow> string option" where
  "format_to_string_nullable fmt = format_search FORMATS fmt"

text \<open>\<open>_device_open_format\<close> (device.c, 475-527).\<close>

definition device_open_format :: "'k env \<Rightarrow> device_t \<Rightarrow> 'k \<Rightarrow> int \<times> device_t \<times> 'k" where
  "device_open_format e dev k =
     (let (ret, fmt, k1) = VIDIOC_S_FMT e k (fd (run dev))
            \<lparr>pix_width = run_width (run dev), pix_height = run_height (run dev),
             pixelformat = format dev, pix_field = V4L2_FIELD_ANY, sizeimage = 0\<rparr>
      in if ret < 0 then (- 1, dev, k1)
         else
           (let (r, dev1) = device_apply_resolution e dev (pix_width fmt) (pix_height fmt)
            in if r < 0 then (- 1, dev1, k1)
               else if pixelformat fmt \<noteq> format dev1
                       \<and> format_to_string_nullable (pixelformat fmt) = None
               then (- 1, dev1, k1)
               else (0, dev1\<lparr>run := (run dev1)\<lparr>run_format := pixelformat fmt,
                                                 raw_size := ucast (sizeimage fmt)\<rparr>\<rparr>, k1)))"

text \<open>\<open>_device_open_hw_fps\<close> (device.c, 529-582).\<close>

definition device_open_hw_fps :: "'k env \<Rightarrow> device_t \<Rightarrow> 'k \<Rightarrow> device_t \<times> 'k" where
  "device_open_hw_fps e dev k =
     (let dev0 = dev\<lparr>run := (run dev)\<lparr>hw_fps := 0\<rparr>\<rparr>;
          (ret, setfps, k1) = VIDIOC_G_PARM e k (fd (run dev0))
            \<lparr>parm_type = V4L2_BUF_TYPE_VIDEO_CAPTURE, parm_capability = 0,
             numerator = 0, denominator = 0\<rparr>
      in if ret < 0 then (dev0, k1)
         else if parm_capability setfps AND V4L2_CAP_TIMEPERFRAME = 0 then (dev0, k1)
         else
           (let (ret, setfps', k2) = VIDIOC_S_PARM e k1 (fd (run dev0))
                  \<lparr>parm_type = V4L2_BUF_TYPE_VIDEO_CAPTURE, parm_capability = 0,
                   numerator = 1,
                   denominator = (if desired_fps dev0 = 0 then 255 else desired_fps dev0)\<rparr>
            in if ret < 0 then (dev0, k2)
               else if numerator setfps' \<noteq> 1 then (dev0, k2)
               else if denominator setfps' = 0 then (dev0, k2)
               else (dev0\<lparr>run := (run dev0)\<lparr>hw_fps := denominator setfps'\<rparr>\<rparr>, k2)))"

text \<open>\<open>A_CALLOC\<close> of the array of hardware buffers: zeroed slots.\<close>

definition zero_hw_buffer :: hw_buffer_t where
  "zero_hw_buffer = \<lparr>data = 0, used = 0, allocated = 0, grabbed = False,
                      buf_info = zero_v4l2_buffer\<rparr>"

text \<open>A loop counter below its bound can be incremented without wrapping, so the
  distance to the bound shrinks; the termination proofs of the loops use this.\<close>

lemma loop_counter_decreases:
  fixes n count :: u32
  assumes "n < count"
  shows "unat count - unat (n + 1) < unat count - unat n"
proof -
  have below: "unat n < unat count"
    using assms by (simp add: word_less_nat_alt)
  moreover have "unat count < 2 ^ 32"
    using unsigned_less [of count] by simp
  ultimately have "unat n + 1 < 2 ^ 32"
    by linarith
  then have "unat (n + 1) = unat n + 1"
    by (simp add: unat_word_ariths)
  with below show ?thesis
    by linarith
qed

text \<open>The loop of \<open>_device_open_io_method_mmap\<close> (device.c, 618-645); its counter
  is \<open>dev->run->n_buffers\<close> itself.\<close>

function mmap_loop :: "'k env \<Rightarrow> u32 \<Rightarrow> device_t \<Rightarrow> 'k \<Rightarrow> int \<times> device_t \<times> 'k" where
  "mmap_loop e count dev k =
     (if run_n_buffers (run dev) < count then
        (let n = run_n_buffers (run dev);
             (ret, info, k1) = VIDIOC_QUERYBUF e k (fd (run dev))
               (zero_v4l2_buffer\<lparr>buf_type := V4L2_BUF_TYPE_VIDEO_CAPTURE,
                                  buf_memory := V4L2_MEMORY_MMAP, buf_index := n\<rparr>)
         in if ret < 0 then (- 1, dev, k1)
            else
              (let (p, k2) = sys_mmap e k1 (buf_length info) (fd (run dev)) (buf_m info);
                   hws = hw_buffers (run dev);
                   hws1 = hws[unat n := (hws ! unat n)\<lparr>data := p\<rparr>]
               in if p = MAP_FAILED
                  then (- 1, dev\<lparr>run := (run dev)\<lparr>hw_buffers := hws1\<rparr>\<rparr>, k2)
                  else mmap_loop e count
                         (dev\<lparr>run := (run dev)\<lparr>
                            hw_buffers := hws1[unat n := (hws1 ! unat n)\<lparr>allocated :=
                                                 ucast (buf_length info)\<rparr>],
                            run_n_buffers := n + 1\<rparr>\<rparr>) k2))
      else (0, dev, k))"
  by pat_completeness auto
termination
  by (relation "measure (\<lambda>(e, count, dev, k). unat count - unat (run_n_buffers (run dev)))")
     (auto simp: loop_counter_decreases)

text \<open>\<open>_device_open_io_method_mmap\<close> (device.c, 594-647).\<close>

definition device_open_io_method_mmap ::
  "'k env \<Rightarrow> device_t \<Rightarrow> 'k \<Rightarrow> int \<times> device_t \<times> 'k" where
  "device_open_io_method_mmap e dev k =
     (let (ret, req, k1) = VIDIOC_REQBUFS e k (fd (run dev))
            \<lparr>req_count = n_buffers dev, req_type = V4L2_BUF_TYPE_VIDEO_CAPTURE,
             req_memory = V4L2_MEMORY_MMAP\<rparr>
      in if ret < 0 then (- 1, dev, k1)
         else if req_count req < 1 then (- 1, dev, k1)
         else mmap_loop e (req_count req)
                (dev\<lparr>run := (run dev)\<lparr>
                   hw_buffers := replicate (unat (req_count req)) zero_hw_buffer,
                   run_n_buffers := 0\<rparr>\<rparr>) k1)"

text \<open>The loop of \<open>_device_open_io_method_userptr\<close> (device.c, 675-683).  The
  allocation is inside an \<open>assert\<close>: a \<open>NULL\<close> result aborts.\<close>

function userptr_loop ::
  "'k env \<Rightarrow> u32 \<Rightarrow> u32 \<Rightarrow> u32 \<Rightarrow> device_t \<Rightarrow> 'k \<Rightarrow> fault + (int \<times> device_t \<times> 'k)" where
  "userptr_loop e count page_size buf_size dev k =
     (if run_n_buffers (run dev) < count then
        (let n = run_n_buffers (run dev);
             (p, k1) = sys_aligned_alloc e k page_size buf_size;
             hws = hw_buffers (run dev)
         in if p = NULL then Inl SIGABRT
            else userptr_loop e count page_size buf_size
                   (dev\<lparr>run := (run dev)\<lparr>
                      hw_buffers := hws[unat n := (hws ! unat n)\<lparr>data := p,
                                          allocated := ucast buf_size\<rparr>],
                      run_n_buffers := n + 1\<rparr>\<rparr>) k1)
      else Inr (0, dev, k))"
  by pat_completeness auto
termination
  by (relation "measure (\<lambda>(e, count, ps, bs, dev, k).
        unat count - unat (run_n_buffers (run dev)))")
     (auto simp: loop_counter_decreases)

text \<open>\<open>_device_open_io_method_userptr\<close> (device.c, 649-685).\<close>

definition device_open_io_method_userptr ::
  "'k env \<Rightarrow> device_t \<Rightarrow> 'k \<Rightarrow> fault + (int \<times> device_t \<times> 'k)" where
  "device_open_io_method_userptr e dev k =
     (let page_size = getpagesize e;
          buf_size = align_size e (raw_size (run dev)) page_size;
          (ret, req, k1) = VIDIOC_REQBUFS e k (fd (run dev))
            \<lparr>req_count = n_buffers dev, req_type = V4L2_BUF_TYPE_VIDEO_CAPTURE,
             req_memory = V4L2_MEMORY_USERPTR\<rparr>
      in if ret < 0 then Inr (- 1, dev, k1)
         else if req_count req < 1 then Inr (- 1, dev, k1)
         else userptr_loop e (req_count req) page_size buf_size
                (dev\<lparr>run := (run dev)\<lparr>
                   hw_buffers := replicate (unat (req_count req)) zero_hw_buffer,
                   run_n_buffers := 0\<rparr>\<rparr>) k1)"

text \<open>\<open>_device_open_io_method\<close> (device.c, 584-592): any other method fails the
  \<open>assert\<close> of the \<open>default\<close> case.\<close>

definition device_open_io_method ::
  "'k env \<Rightarrow> device_t \<Rightarrow> 'k \<Rightarrow> fault + (int \<times> device_t \<times> 'k)" where
  "device_open_io_method e dev k =
     (if io_method dev = V4L2_MEMORY_MMAP then Inr (device_open_io_method_mmap e dev k)
      else if io_method dev = V4L2_MEMORY_USERPTR then device_open_io_method_userptr e dev k
      else Inl SIGABRT)"

text \<open>\<open>_device_open_queue_buffers\<close> (device.c, 687-707), as a loop on \<open>index\<close>.\<close>

function queue_loop ::
  "'k env \<Rightarrow> device_t \<Rightarrow> u32 \<Rightarrow> 'k \<Rightarrow> fault + (int \<times> device_t \<times> 'k)" where
  "queue_loop e dev index k =
     (if index < run_n_buffers (run dev) then
        (let info0 = zero_v4l2_buffer\<lparr>buf_type := V4L2_BUF_TYPE_VIDEO_CAPTURE,
                                       buf_memory := io_method dev, buf_index := index\<rparr>;
             hws = hw_buffers (run dev)
         in if io_method dev = V4L2_MEMORY_USERPTR \<and> unat index \<ge> length hws
            then Inl OutOfBounds
            else
              (let info = (if io_method dev = V4L2_MEMORY_USERPTR
                           then info0\<lparr>buf_m := data (hws ! unat index),
                                      buf_length := ucast (allocated (hws ! unat index))\<rparr>
                           else info0);
                   (ret, info', k1) = VIDIOC_QBUF e k (fd (run dev)) info
               in if ret < 0 then Inr (- 1, dev, k1)
                  else queue_loop e dev (index + 1) k1))
      else Inr (0, dev, k))"
  by pat_completeness auto
termination
  by (relation "measure (\<lambda>(e, dev, index, k). unat (run_n_buffers (run dev)) - unat index)")
     (auto simp: loop_counter_decreases)

definition device_open_queue_buffers ::
  "'k env \<Rightarrow> device_t \<Rightarrow> 'k \<Rightarrow> fault + (int \<times> device_t \<times> 'k)" where
  "device_open_queue_buffers e dev k = queue_loop e dev 0 k"

text \<open>\<open>_device_open_alloc_picbufs\<close> (device.c, 709-720): one picture per buffer,
  each with \<open>picture_size\<close> bytes reserved.\<close>

definition device_open_alloc_picbufs :: "'k env \<Rightarrow> device_t \<Rightarrow> device_t" where
  "device_open_alloc_picbufs e dev =
     (let picture_size = picture_get_generous_size e (run_width (run dev)) (run_height (run dev))
      in dev\<lparr>run := (run dev)\<lparr>pictures :=
           replicate (unat (run_n_buffers (run dev)))
             \<lparr>picture_allocated = picture_size, grab_ts = 0\<rparr>\<rparr>\<rparr>)"

section \<open>Close and open\<close>

text \<open>The loop of \<open>device_close\<close> over the hardware buffers (device.c, 214-231).\<close>

function close_loop :: "'k env \<Rightarrow> device_t \<Rightarrow> u32 \<Rightarrow> 'k \<Rightarrow> fault + 'k" where
  "close_loop e dev index k =
     (if index < run_n_buffers (run dev) then
        (let hws = hw_buffers (run dev)
         in if unat index \<ge> length hws then Inl OutOfBounds
            else
              (let hw = hws ! unat index;
                   k1 = (if io_method dev = V4L2_MEMORY_MMAP then
                           (if allocated hw > 0 \<and> data hw \<noteq> MAP_FAILED
                            then snd (sys_munmap e k (data hw) (allocated hw)) else k)
                         else
                           (if data hw \<noteq> NULL then sys_free e k (data hw) else k))
               in close_loop e dev (index + 1) k1))
      else Inr k)"
  by pat_completeness auto
termination
  by (relation "measure (\<lambda>(e, dev, index, k). unat (run_n_buffers (run dev)) - unat index)")
     (auto simp: loop_counter_decreases)

text \<open>\<open>device_close\<close> (device.c, 200-246).  Destroying the pictures reads
  \<open>pictures[index]\<close> for every index below \<open>n_buffers\<close>.\<close>

definition device_close :: "'k env \<Rightarrow> device_t \<Rightarrow> 'k \<Rightarrow> fault + (device_t \<times> 'k)" where
  "device_close e dev k =
     (let dev1 = dev\<lparr>run := (run dev)\<lparr>run_n_workers := 0\<rparr>\<rparr>
      in if pictures (run dev1) \<noteq> [] \<and> unat (run_n_buffers (run dev1)) > length (pictures (run dev1))
         then Inl OutOfBounds
         else
           (let dev2 = dev1\<lparr>run := (run dev1)\<lparr>pictures := []\<rparr>\<rparr>
            in and_then
                 (if hw_buffers (run dev2) \<noteq> [] then
                    and_then (close_loop e dev2 0 k) (\<lambda>k1.
                      Inr (dev2\<lparr>run := (run dev2)\<lparr>run_n_buffers := 0, hw_buffers := []\<rparr>\<rparr>, k1))
                  else Inr (dev2, k))
                 (\<lambda>(dev3, k2).
                    if fd (run dev3) \<ge> 0 then
                      (let (ret, k3) = sys_close e k2 (fd (run dev3))
                       in Inr (dev3\<lparr>run := (run dev3)\<lparr>fd := - 1\<rparr>\<rparr>, k3))
                    else Inr (dev3, k2))))"

text \<open>Modelled from the spec: \<open>min_u\<close> of tools.h, which is not part of
  src/device.c; the spec gives the effective worker count as
  "min(configured workers, granted buffers)".\<close>

definition min_u :: "u32 \<Rightarrow> u32 \<Rightarrow> u32" where
  "min_u a b = (if a < b then a else b)"

text \<open>\<open>device_open\<close> (device.c, 164-198).  \<open>open_error\<close> is the label \<open>error\<close>.\<close>

definition open_error :: "'k env \<Rightarrow> device_t \<Rightarrow> 'k \<Rightarrow> fault + (int \<times> device_t \<times> 'k)" where
  "open_error e dev k = and_then (device_close e dev k) (\<lambda>(dev', k'). Inr (- 1, dev', k'))"

definition device_open :: "'k env \<Rightarrow> device_t \<Rightarrow> 'k \<Rightarrow> fault + (int \<times> device_t \<times> 'k)" where
  "device_open e dev k =
     (let (f, k0) = sys_open e k (path dev);
          dev0 = dev\<lparr>run := (run dev)\<lparr>fd := f\<rparr>\<rparr>
      in if f < 0 then open_error e dev0 k0
         else
           (let (r1, dev1, k1) = device_open_check_cap e dev0 k0
            in if r1 < 0 then open_error e dev1 k1
               else
                 (let (r2, dev2, k2) = device_open_dv_timings e dev1 k1
                  in if r2 < 0 then open_error e dev2 k2
                     else
                       (let (r3, dev3, k3) = device_open_format e dev2 k2
                        in if r3 < 0 then open_error e dev3 k3
                           else
                             (let (dev4, k4) = device_open_hw_fps e dev3 k3
                              in and_then (device_open_io_method e dev4 k4) (\<lambda>(r5, dev5, k5).
                                   if r5 < 0 then open_error e dev5 k5
                                   else and_then (device_open_queue_buffers e dev5 k5)
                                     (\<lambda>(r6, dev6, k6).
                                        if r6 < 0 then open_error e dev6 k6
                                        else
                                          (let dev7 = device_open_alloc_picbufs e dev6
                                           in and_then (device_apply_controls e dev7 k6) (\<lambda>k8.
                                                Inr (0, dev7\<lparr>run := (run dev7)\<lparr>run_n_workers :=
                                                          min_u (run_n_buffers (run dev7))
                                                                (n_workers dev7)\<rparr>\<rparr>, k8))))))))))"

section \<open>A simulated device\<close>

text \<open>
  A concrete world to run the functions in.  Its kernel state is the list of the
  controls written so far.  The simulated driver accepts every request, grants
  640x480 whatever resolution is proposed, keeps the proposed pixel format,
  grants at most two buffers, has no DV timings, no frame-rate control and no
  controls; its event queue holds end-of-stream events and its capture queue
  hands out buffer 1 with 1000 bytes.  The ceilings are those of the upstream
  device.h.
\<close>

definition sim_env :: "v4l2_control list env" where
  "sim_env =
     \<lparr>VIDEO_MAX_WIDTH = 10240, VIDEO_MAX_HEIGHT = 4320, getpagesize = 4096,
      align_size = (\<lambda>sz to. ucast sz + (to - 1) - ((ucast sz + (to - 1)) mod to)),
      picture_get_generous_size = (\<lambda>w h. ucast w * ucast h * 4),
      get_now_monotonic = (\<lambda>k. 42),
      sys_open = (\<lambda>k p. (3, k)),
      sys_close = (\<lambda>k f. (0, k)),
      sys_mmap = (\<lambda>k len f off. (0x10000 + off, k)),
      sys_munmap = (\<lambda>k p len. (0, k)),
      sys_aligned_alloc = (\<lambda>k al sz. (0x20000, k)),
      sys_free = (\<lambda>k p. k),
      VIDIOC_QUERYCAP = (\<lambda>k f c.
        (0, c\<lparr>capabilities := V4L2_CAP_VIDEO_CAPTURE OR V4L2_CAP_STREAMING\<rparr>, k)),
      VIDIOC_S_INPUT = (\<lambda>k f i. (0, i, k)),
      VIDIOC_S_STD = (\<lambda>k f s. (0, s, k)),
      VIDIOC_QUERYSTD = (\<lambda>k f s. (- 1, s, k)),
      VIDIOC_QUERY_DV_TIMINGS = (\<lambda>k f t. (- 1, t, k)),
      VIDIOC_S_DV_TIMINGS = (\<lambda>k f t. (0, t, k)),
      VIDIOC_SUBSCRIBE_EVENT = (\<lambda>k f t. (0, k)),
      VIDIOC_DQEVENT = (\<lambda>k f. (0, V4L2_EVENT_EOS, k)),
      VIDIOC_S_FMT = (\<lambda>k f p.
        (0, p\<lparr>pix_width := 640, pix_height := 480, sizeimage := 614400\<rparr>, k)),
      VIDIOC_G_PARM = (\<lambda>k f p. (- 1, p, k)),
      VIDIOC_S_PARM = (\<lambda>k f p. (0, p, k)),
      VIDIOC_REQBUFS = (\<lambda>k f r. (0, r\<lparr>req_count := min (req_count r) 2\<rparr>, k)),
      VIDIOC_QUERYBUF = (\<lambda>k f b.
        (0, b\<lparr>buf_length := 614400, buf_m := ucast (buf_index b) * 614400\<rparr>, k)),
      VIDIOC_QBUF = (\<lambda>k f b. (0, b, k)),
      VIDIOC_DQBUF = (\<lambda>k f b. (0, b\<lparr>buf_index := 1, bytesused := 1000\<rparr>, k)),
      VIDIOC_STREAMON = (\<lambda>k f t. (0, k)),
      VIDIOC_STREAMOFF = (\<lambda>k f t. (0, k)),
      VIDIOC_QUERYCTRL = (\<lambda>k f q. (- 1, q, k)),
      VIDIOC_S_CTRL = (\<lambda>k f c. (0, c, k @ [c]))\<rparr>"

text \<open>The configuration and the runtime that \<open>device_init\<close> (device.c, 103-130)
  builds on a machine with four cores or more, every control left alone.\<close>

definition sim_control :: control_t where
  "sim_control = \<lparr>mode = CTL_MODE_NONE, val = 0\<rparr>"

definition sim_run :: device_runtime_t where
  "sim_run = \<lparr>fd = - 1, run_width = 0, run_height = 0, run_format = 0, hw_fps = 0,
     raw_size = 0, run_n_buffers = 0, run_n_workers = 0, hw_buffers = [], pictures = [],
     capturing = False\<rparr>"

definition sim_dev :: device_t where
  "sim_dev = \<lparr>path = ''/dev/video0'', input = 0, width = 640, height = 480,
     format = V4L2_PIX_FMT_YUYV, standard = V4L2_STD_UNKNOWN, dv_timings = False,
     n_buffers = 5, n_workers = 4, desired_fps = 0, min_frame_size = 128, timeout = 1,
     error_delay = 1, io_method = V4L2_MEMORY_MMAP,
     ctl = \<lparr>brightness = sim_control, contrast = sim_control, saturation = sim_control,
            hue = sim_control, gamma = sim_control, sharpness = sim_control,
            backlight_compensation = sim_control, white_balance = sim_control,
            gain = sim_control, color_effect = sim_control, flip_vertical = sim_control,
            flip_horizontal = sim_control\<rparr>,
     run = sim_run\<rparr>"

text \<open>The open session that \<open>device_open\<close> makes of this configuration on the
  simulated device: two free slots.\<close>

definition sim_slot :: hw_buffer_t where
  "sim_slot = \<lparr>data = 0x10000, used = 0, allocated = 614400, grabbed = False,
                buf_info = zero_v4l2_buffer\<rparr>"

definition sim_picture :: picture_t where
  "sim_picture = \<lparr>picture_allocated = 1228800, grab_ts = 0\<rparr>"

definition sim_session :: device_t where
  "sim_session = sim_dev\<lparr>run := sim_run\<lparr>fd := 3, run_width := 640, run_height := 480,
     run_format := V4L2_PIX_FMT_YUYV, raw_size := 614400, run_n_buffers := 2,
     run_n_workers := 2, hw_buffers := [sim_slot, sim_slot\<lparr>data := 0xA6000\<rparr>],
     pictures := [sim_picture, sim_picture]\<rparr>\<rparr>"

section \<open>Facts about the simulated device\<close>

lemma sim_env_simps [simp]:
  "VIDEO_MAX_WIDTH sim_env = 10240"
  "VIDEO_MAX_HEIGHT sim_env = 4320"
  "getpagesize sim_env = 4096"
  "get_now_monotonic sim_env = (\<lambda>k. 42)"
  "sys_open sim_env = (\<lambda>k p. (3, k))"
  "sys_close sim_env = (\<lambda>k f. (0, k))"
  "sys_mmap sim_env = (\<lambda>k len f off. (0x10000 + off, k))"
  "sys_munmap sim_env = (\<lambda>k p len. (0, k))"
  "VIDIOC_QUERYCAP sim_env = (\<lambda>k f c.
        (0, c\<lparr>capabilities := V4L2_CAP_VIDEO_CAPTURE OR V4L2_CAP_STREAMING\<rparr>, k))"
  "VIDIOC_S_INPUT sim_env = (\<lambda>k f i. (0, i, k))"
  "VIDIOC_S_STD sim_env = (\<lambda>k f s. (0, s, k))"
  "VIDIOC_QUERYSTD sim_env = (\<lambda>k f s. (- 1, s, k))"
  "VIDIOC_QUERY_DV_TIMINGS sim_env = (\<lambda>k f t. (- 1, t, k))"
  "VIDIOC_S_DV_TIMINGS sim_env = (\<lambda>k f t. (0, t, k))"
  "VIDIOC_SUBSCRIBE_EVENT sim_env = (\<lambda>k f t. (0, k))"
  "VIDIOC_DQEVENT sim_env = (\<lambda>k f. (0, V4L2_EVENT_EOS, k))"
  "VIDIOC_S_FMT sim_env = (\<lambda>k f p.
        (0, p\<lparr>pix_width := 640, pix_height := 480, sizeimage := 614400\<rparr>, k))"
  "VIDIOC_G_PARM sim_env = (\<lambda>k f p. (- 1, p, k))"
  "VIDIOC_S_PARM sim_env = (\<lambda>k f p. (0, p, k))"
  "VIDIOC_REQBUFS sim_env = (\<lambda>k f r. (0, r\<lparr>req_count := min (req_count r) 2\<rparr>, k))"
  "VIDIOC_QUERYBUF sim_env = (\<lambda>k f b.
        (0, b\<lparr>buf_length := 614400, buf_m := ucast (buf_index b) * 614400\<rparr>, k))"
  "VIDIOC_QBUF sim_env = (\<lambda>k f b. (0, b, k))"
  "VIDIOC_DQBUF sim_env = (\<lambda>k f b. (0, b\<lparr>buf_index := 1, bytesused := 1000\<rparr>, k))"
  "VIDIOC_STREAMON sim_env = (\<lambda>k f t. (0, k))"
  "VIDIOC_STREAMOFF sim_env = (\<lambda>k f t. (0, k))"
  "VIDIOC_QUERYCTRL sim_env = (\<lambda>k f q. (- 1, q, k))"
  "VIDIOC_S_CTRL sim_env = (\<lambda>k f c. (0, c, k @ [c]))"
  by (simp_all add: sim_env_def)

lemma sim_session_simps [simp]:
  "fd (run sim_session) = 3"
  "capturing (run sim_session) = False"
  "run_width (run sim_session) = 640"
  "run_height (run sim_session) = 480"
  "run_n_buffers (run sim_session) = 2"
  "hw_buffers (run sim_session) = [sim_slot, sim_slot\<lparr>data := 0xA6000\<rparr>]"
  "n_workers sim_session = 4"
  "n_workers sim_dev = 4"
  "run_n_workers (run sim_session) = 2"
  "run_format (run sim_session) = V4L2_PIX_FMT_YUYV"
  "format sim_session = V4L2_PIX_FMT_YUYV"
  "format sim_dev = V4L2_PIX_FMT_YUYV"
  "pictures (run sim_session) = [sim_picture, sim_picture]"
  "io_method sim_session = V4L2_MEMORY_MMAP"
  by (simp_all add: sim_session_def sim_run_def sim_dev_def)

lemma sim_slot_simps [simp]:
  "grabbed sim_slot = False"
  "used sim_slot = 0"
  "buf_info sim_slot = zero_v4l2_buffer"
  "grab_ts sim_picture = 0"
  by (simp_all add: sim_slot_def sim_picture_def)

section \<open>Auxiliary facts\<close>

subsection \<open>Machine integers\<close>

lemma sint_small:
  fixes x :: "32 word"
  assumes "x < 0x80000000"
  shows "sint x = uint x"
proof -
  have "uint x < uint (0x80000000 :: 32 word)"
    using assms by (simp only: word_less_def)
  then have "uint x < 2147483648"
    by simp
  moreover have "- 2147483648 \<le> uint x"
    using uint_ge_0 [of x] by linarith
  ultimately have "signed_take_bit 31 (uint x) = uint x"
    by (intro signed_take_bit_int_eq_self) simp_all
  then show ?thesis
    by (simp add: sint_uint)
qed

lemma sint_minus_one:
  fixes x :: "32 word"
  assumes "sint x = - 1"
  shows "x = - 1"
  using assms by (metis sint_n1 signed_word_eqI)

lemma smod_zero_iff:
  fixes a b :: int
  shows "a smod b = 0 \<longleftrightarrow> b dvd a"
  by (auto simp: smod_int_alt_def sgn_eq_0_iff mod_eq_0_iff_dvd)

lemma smod_bound:
  fixes a b :: int
  assumes "b \<noteq> 0"
  shows "\<bar>a smod b\<bar> < \<bar>b\<bar>"
  using assms by (simp add: smod_int_alt_def abs_mult sgn_if)

lemma c_rem_zero_iff:
  fixes a b :: "32 word"
  assumes "b \<noteq> 0"
  shows "(word_of_int (sint a smod sint b) :: 32 word) = 0 \<longleftrightarrow> sint b dvd sint a"
proof -
  have nz: "sint b \<noteq> 0" using assms by (metis sint_0 signed_word_eqI)
  have "\<bar>sint a smod sint b\<bar> < \<bar>sint b\<bar>" using nz by (rule smod_bound)
  moreover have "\<bar>sint b\<bar> \<le> 2147483648"
    using sint_ge [of b] sint_lt [of b] by simp
  ultimately have small: "\<bar>sint a smod sint b\<bar> < 4294967296" by linarith
  have "(word_of_int (sint a smod sint b) :: 32 word) = 0 \<longleftrightarrow> sint a smod sint b = 0"
  proof
    assume "(word_of_int (sint a smod sint b) :: 32 word) = 0"
    then have "(4294967296::int) dvd sint a smod sint b"
      by (simp add: word_of_int_eq_0_iff)
    then have "sint a smod sint b \<noteq> 0 \<Longrightarrow> \<bar>4294967296 :: int\<bar> \<le> \<bar>sint a smod sint b\<bar>"
      by (rule dvd_imp_le_int [rotated])
    with small show "sint a smod sint b = 0"
      by fastforce
  qed simp
  then show ?thesis by (simp add: smod_zero_iff)
qed

subsection \<open>The loops\<close>

declare mmap_loop.simps [simp del] userptr_loop.simps [simp del]
  queue_loop.simps [simp del] close_loop.simps [simp del]

lemma open_error_returns:
  assumes "open_error e dev k = Inr (r, dev', k')"
  shows "r = - 1"
  using assms by (simp add: open_error_def and_then_def split: sum.splits prod.splits)

lemma mmap_loop_success:
  assumes "mmap_loop e count dev k = (r, dev', k')" and "\<not> r < 0"
      and "run_n_buffers (run dev) \<le> count"
  shows "run_n_buffers (run dev') = count \<and> n_workers dev' = n_workers dev
         \<and> length (hw_buffers (run dev')) = length (hw_buffers (run dev))
         \<and> run_format (run dev') = run_format (run dev)"
  using assms
proof (induction "unat count - unat (run_n_buffers (run dev))" arbitrary: dev k rule: less_induct)
  case less
  show ?case
  proof (cases "run_n_buffers (run dev) < count")
    case False
    then have "mmap_loop e count dev k = (0, dev, k)"
      by (simp add: mmap_loop.simps [of e count dev k])
    with less.prems False show ?thesis
      by auto
  next
    case True
    let ?n = "run_n_buffers (run dev)"
    obtain ret info k1 where qb: "VIDIOC_QUERYBUF e k (fd (run dev))
               (zero_v4l2_buffer\<lparr>buf_type := V4L2_BUF_TYPE_VIDEO_CAPTURE,
                                  buf_memory := V4L2_MEMORY_MMAP, buf_index := ?n\<rparr>) = (ret, info, k1)"
      by (metis prod_cases3)
    obtain p k2 where mm: "sys_mmap e k1 (buf_length info) (fd (run dev)) (buf_m info) = (p, k2)"
      by (metis surj_pair)
    let ?hws1 = "(hw_buffers (run dev))[unat ?n := (hw_buffers (run dev) ! unat ?n)\<lparr>data := p\<rparr>]"
    let ?next = "dev\<lparr>run := (run dev)\<lparr>
                            hw_buffers := ?hws1[unat ?n := (?hws1 ! unat ?n)\<lparr>allocated :=
                                                 ucast (buf_length info)\<rparr>],
                            run_n_buffers := ?n + 1\<rparr>\<rparr>"
    have unfolded: "mmap_loop e count dev k =
        (if ret < 0 then (- 1, dev, k1)
         else if p = MAP_FAILED then (- 1, dev\<lparr>run := (run dev)\<lparr>hw_buffers := ?hws1\<rparr>\<rparr>, k2)
         else mmap_loop e count ?next k2)"
      using True qb mm by (simp add: mmap_loop.simps [of e count dev k] Let_def)
    with less.prems(1,2) have rec: "mmap_loop e count ?next k2 = (r, dev', k')"
      by (auto split: if_splits)
    have smaller: "unat count - unat (run_n_buffers (run ?next)) < unat count - unat ?n"
      using True by (simp add: loop_counter_decreases)
    have bound: "run_n_buffers (run ?next) \<le> count"
      using True by (simp add: inc_le)
    from less.hyps [OF smaller rec less.prems(2) bound] show ?thesis
      by simp
  qed
qed

lemma userptr_loop_success:
  assumes "userptr_loop e count ps bs dev k = Inr (r, dev', k')" and "\<not> r < 0"
      and "run_n_buffers (run dev) \<le> count"
  shows "run_n_buffers (run dev') = count \<and> n_workers dev' = n_workers dev
         \<and> length (hw_buffers (run dev')) = length (hw_buffers (run dev))
         \<and> run_format (run dev') = run_format (run dev)"
  using assms
proof (induction "unat count - unat (run_n_buffers (run dev))" arbitrary: dev k rule: less_induct)
  case less
  show ?case
  proof (cases "run_n_buffers (run dev) < count")
    case False
    then have "userptr_loop e count ps bs dev k = Inr (0, dev, k)"
      by (simp add: userptr_loop.simps [of e count ps bs dev k])
    with less.prems False show ?thesis
      by auto
  next
    case True
    let ?n = "run_n_buffers (run dev)"
    obtain p k1 where al: "sys_aligned_alloc e k ps bs = (p, k1)"
      by (metis surj_pair)
    let ?next = "dev\<lparr>run := (run dev)\<lparr>
                      hw_buffers := (hw_buffers (run dev))[unat ?n :=
                          (hw_buffers (run dev) ! unat ?n)\<lparr>data := p, allocated := ucast bs\<rparr>],
                      run_n_buffers := ?n + 1\<rparr>\<rparr>"
    have unfolded: "userptr_loop e count ps bs dev k =
        (if p = NULL then Inl SIGABRT else userptr_loop e count ps bs ?next k1)"
      using True al by (simp add: userptr_loop.simps [of e count ps bs dev k] Let_def)
    with less.prems(1) have rec: "userptr_loop e count ps bs ?next k1 = Inr (r, dev', k')"
      by (auto split: if_splits)
    have smaller: "unat count - unat (run_n_buffers (run ?next)) < unat count - unat ?n"
      using True by (simp add: loop_counter_decreases)
    have bound: "run_n_buffers (run ?next) \<le> count"
      using True by (simp add: inc_le)
    from less.hyps [OF smaller rec less.prems(2) bound] show ?thesis
      by simp
  qed
qed

lemma queue_loop_frame:
  assumes "queue_loop e dev index k = Inr (r, dev', k')"
  shows "dev' = dev"
  using assms
proof (induction "unat (run_n_buffers (run dev)) - unat index" arbitrary: index k rule: less_induct)
  case less
  show ?case
  proof (cases "index < run_n_buffers (run dev)")
    case False
    then show ?thesis
      using less.prems by (simp add: queue_loop.simps [of e dev index k])
  next
    case True
    let ?info0 = "zero_v4l2_buffer\<lparr>buf_type := V4L2_BUF_TYPE_VIDEO_CAPTURE,
                                       buf_memory := io_method dev, buf_index := index\<rparr>"
    let ?info = "if io_method dev = V4L2_MEMORY_USERPTR
                 then ?info0\<lparr>buf_m := data (hw_buffers (run dev) ! unat index),
                        buf_length := ucast (allocated (hw_buffers (run dev) ! unat index))\<rparr>
                 else ?info0"
    obtain ret info' k1 where qb: "VIDIOC_QBUF e k (fd (run dev)) ?info = (ret, info', k1)"
      by (metis prod_cases3)
    have unfolded: "queue_loop e dev index k =
        (if io_method dev = V4L2_MEMORY_USERPTR \<and> unat index \<ge> length (hw_buffers (run dev))
         then Inl OutOfBounds
         else if ret < 0 then Inr (- 1, dev, k1)
         else queue_loop e dev (index + 1) k1)"
      using True qb by (simp add: queue_loop.simps [of e dev index k] Let_def)
    show ?thesis
    proof (cases "ret < 0")
      case True
      with unfolded less.prems show ?thesis
        by (simp split: if_splits)
    next
      case False
      have inside: "\<not> (io_method dev = V4L2_MEMORY_USERPTR
                          \<and> unat index \<ge> length (hw_buffers (run dev)))"
        using unfolded less.prems by auto
      with unfolded False have "queue_loop e dev index k = queue_loop e dev (index + 1) k1"
        by simp
      with less.prems have rec: "queue_loop e dev (index + 1) k1 = Inr (r, dev', k')"
        by simp
      have smaller: "unat (run_n_buffers (run dev)) - unat (index + 1)
                       < unat (run_n_buffers (run dev)) - unat index"
        using True by (rule loop_counter_decreases)
      from less.hyps [OF smaller rec] show ?thesis .
    qed
  qed
qed

subsection \<open>What the steps of open leave alone\<close>

lemma apply_resolution_frame:
  assumes "device_apply_resolution e dev w h = (r, dev')"
  shows "n_workers dev' = n_workers dev \<and> format dev' = format dev
         \<and> dv_timings dev' = dv_timings dev \<and> fd (run dev') = fd (run dev)"
  using assms by (auto simp: device_apply_resolution_def split: if_splits)

lemma apply_resolution_accepts:
  assumes "device_apply_resolution e dev w h = (r, dev')" and "\<not> r < 0"
  shows "run_width (run dev') = w \<and> run_height (run dev') = h
         \<and> w \<noteq> 0 \<and> w \<le> VIDEO_MAX_WIDTH e \<and> h \<noteq> 0 \<and> h \<le> VIDEO_MAX_HEIGHT e"
  using assms by (auto simp: device_apply_resolution_def split: if_splits)

lemma open_check_cap_frame:
  assumes "device_open_check_cap e dev k = (r, dev', k')"
  shows "n_workers dev' = n_workers dev \<and> format dev' = format dev"
  using assms
  by (auto simp: device_open_check_cap_def Let_def split: prod.splits if_splits)

lemma apply_dv_timings_frame:
  assumes "device_apply_dv_timings e dev k = (r, dev', k')"
  shows "n_workers dev' = n_workers dev \<and> format dev' = format dev"
  using assms
  by (auto simp: device_apply_dv_timings_def Let_def split: prod.splits if_splits
      dest!: apply_resolution_frame)

lemma open_dv_timings_frame:
  assumes "device_open_dv_timings e dev k = (r, dev', k')"
  shows "n_workers dev' = n_workers dev \<and> format dev' = format dev"
  using assms
  by (auto simp: device_open_dv_timings_def Let_def split: prod.splits if_splits
      dest!: apply_resolution_frame apply_dv_timings_frame)

lemma open_format_frame:
  assumes "device_open_format e dev k = (r, dev', k')"
  shows "n_workers dev' = n_workers dev \<and> format dev' = format dev"
  using assms
  by (auto simp: device_open_format_def Let_def split: prod.splits if_splits
      dest!: apply_resolution_frame)

lemma open_hw_fps_frame:
  assumes "device_open_hw_fps e dev k = (dev', k')"
  shows "n_workers dev' = n_workers dev \<and> run_format (run dev') = run_format (run dev)
         \<and> run_width (run dev') = run_width (run dev)
         \<and> run_height (run dev') = run_height (run dev)"
  using assms
  by (auto simp: device_open_hw_fps_def Let_def split: prod.splits if_splits)


lemma open_io_method_success:
  assumes "device_open_io_method e dev k = Inr (r, dev', k')" and "\<not> r < 0"
  shows "\<exists>ret granted k1.
           VIDIOC_REQBUFS e k (fd (run dev))
             \<lparr>req_count = n_buffers dev, req_type = V4L2_BUF_TYPE_VIDEO_CAPTURE,
              req_memory = io_method dev\<rparr> = (ret, granted, k1)
           \<and> \<not> ret < 0 \<and> 1 \<le> req_count granted
           \<and> run_n_buffers (run dev') = req_count granted
           \<and> length (hw_buffers (run dev')) = unat (req_count granted)
           \<and> n_workers dev' = n_workers dev
           \<and> run_format (run dev') = run_format (run dev)"
proof -
  let ?req = "\<lparr>req_count = n_buffers dev, req_type = V4L2_BUF_TYPE_VIDEO_CAPTURE,
               req_memory = io_method dev\<rparr>"
  obtain ret granted k1 where rb: "VIDIOC_REQBUFS e k (fd (run dev)) ?req = (ret, granted, k1)"
    by (metis prod_cases3)
  let ?start = "dev\<lparr>run := (run dev)\<lparr>
                   hw_buffers := replicate (unat (req_count granted)) zero_hw_buffer,
                   run_n_buffers := 0\<rparr>\<rparr>"
  consider (mmap) "io_method dev = V4L2_MEMORY_MMAP"
    | (userptr) "io_method dev \<noteq> V4L2_MEMORY_MMAP" "io_method dev = V4L2_MEMORY_USERPTR"
    using assms(1) by (auto simp: device_open_io_method_def split: if_splits)
  then show ?thesis
  proof cases
    case mmap
    have step: "device_open_io_method e dev k =
        Inr (if ret < 0 then (- 1, dev, k1)
             else if req_count granted < 1 then (- 1, dev, k1)
             else mmap_loop e (req_count granted) ?start k1)"
      using mmap rb by (simp add: device_open_io_method_def device_open_io_method_mmap_def)
    with assms have ok: "\<not> ret < 0" "\<not> req_count granted < 1"
      by (auto split: if_splits)
    with step assms(1) have loop: "mmap_loop e (req_count granted) ?start k1 = (r, dev', k')"
      by simp
    have "run_n_buffers (run ?start) \<le> req_count granted"
      by simp
    moreover have "1 \<le> req_count granted"
      using ok(2) by (rule leI)
    ultimately show ?thesis
      using mmap_loop_success [OF loop assms(2)] ok(1) rb mmap by simp
  next
    case userptr
    have step: "device_open_io_method e dev k =
        (if ret < 0 then Inr (- 1, dev, k1)
         else if req_count granted < 1 then Inr (- 1, dev, k1)
         else userptr_loop e (req_count granted) (getpagesize e)
                (align_size e (raw_size (run dev)) (getpagesize e)) ?start k1)"
      using userptr rb
      by (simp add: device_open_io_method_def device_open_io_method_userptr_def Let_def)
    with assms have ok: "\<not> ret < 0" "\<not> req_count granted < 1"
      by (auto split: if_splits)
    with step assms(1) have loop: "userptr_loop e (req_count granted) (getpagesize e)
                (align_size e (raw_size (run dev)) (getpagesize e)) ?start k1 = Inr (r, dev', k')"
      by simp
    have "run_n_buffers (run ?start) \<le> req_count granted"
      by simp
    moreover have "1 \<le> req_count granted"
      using ok(2) by (rule leI)
    ultimately show ?thesis
      using userptr_loop_success [OF loop assms(2)] ok(1) rb userptr by simp
  qed
qed

lemma open_alloc_picbufs_frame:
  "n_workers (device_open_alloc_picbufs e dev) = n_workers dev
   \<and> run_n_buffers (run (device_open_alloc_picbufs e dev)) = run_n_buffers (run dev)
   \<and> run_format (run (device_open_alloc_picbufs e dev)) = run_format (run dev)
   \<and> hw_buffers (run (device_open_alloc_picbufs e dev)) = hw_buffers (run dev)
   \<and> length (pictures (run (device_open_alloc_picbufs e dev))) = unat (run_n_buffers (run dev))"
  by (simp add: device_open_alloc_picbufs_def Let_def)

subsection \<open>A successful open went through every step\<close>

lemma device_open_success:
  assumes ok: "device_open e dev k = Inr (0, dev', k')"
  obtains f k0 r1 dev1 k1 r2 dev2 k2 r3 dev3 k3 dev4 k4 r5 dev5 k5 r6 k6 where
    "sys_open e k (path dev) = (f, k0)" "\<not> f < 0"
    "device_open_check_cap e (dev\<lparr>run := (run dev)\<lparr>fd := f\<rparr>\<rparr>) k0 = (r1, dev1, k1)" "\<not> r1 < 0"
    "device_open_dv_timings e dev1 k1 = (r2, dev2, k2)" "\<not> r2 < 0"
    "device_open_format e dev2 k2 = (r3, dev3, k3)" "\<not> r3 < 0"
    "device_open_hw_fps e dev3 k3 = (dev4, k4)"
    "device_open_io_method e dev4 k4 = Inr (r5, dev5, k5)" "\<not> r5 < 0"
    "device_open_queue_buffers e dev5 k5 = Inr (r6, dev5, k6)" "\<not> r6 < 0"
    "device_apply_controls e (device_open_alloc_picbufs e dev5) k6 = Inr k'"
    "dev' = (device_open_alloc_picbufs e dev5)\<lparr>run :=
              (run (device_open_alloc_picbufs e dev5))\<lparr>run_n_workers :=
                 min_u (run_n_buffers (run (device_open_alloc_picbufs e dev5)))
                       (n_workers (device_open_alloc_picbufs e dev5))\<rparr>\<rparr>"
proof -
  have no_error: "open_error e d s \<noteq> Inr (0, dev', k')" for d s
    using open_error_returns [of e d s 0 dev' k'] by auto
  obtain f k0 where s0: "sys_open e k (path dev) = (f, k0)"
    by (metis surj_pair)
  let ?dev0 = "dev\<lparr>run := (run dev)\<lparr>fd := f\<rparr>\<rparr>"
  obtain r1 dev1 k1 where s1: "device_open_check_cap e ?dev0 k0 = (r1, dev1, k1)"
    by (metis prod_cases3)
  obtain r2 dev2 k2 where s2: "device_open_dv_timings e dev1 k1 = (r2, dev2, k2)"
    by (metis prod_cases3)
  obtain r3 dev3 k3 where s3: "device_open_format e dev2 k2 = (r3, dev3, k3)"
    by (metis prod_cases3)
  obtain dev4 k4 where s4: "device_open_hw_fps e dev3 k3 = (dev4, k4)"
    by (metis surj_pair)
  let ?tail6 = "\<lambda>(r6, dev6, k6).
                  if r6 < 0 then open_error e dev6 k6
                  else (let dev7 = device_open_alloc_picbufs e dev6
                        in and_then (device_apply_controls e dev7 k6)
                             (\<lambda>k8. Inr (0 :: int, dev7\<lparr>run := (run dev7)\<lparr>run_n_workers :=
                                min_u (run_n_buffers (run dev7)) (n_workers dev7)\<rparr>\<rparr>, k8)))"
  let ?tail5 = "\<lambda>(r5, dev5, k5).
                  if r5 < 0 then open_error e dev5 k5
                  else and_then (device_open_queue_buffers e dev5 k5) ?tail6"
  have unfolded: "device_open e dev k =
      (if f < 0 then open_error e ?dev0 k0
       else if r1 < 0 then open_error e dev1 k1
       else if r2 < 0 then open_error e dev2 k2
       else if r3 < 0 then open_error e dev3 k3
       else and_then (device_open_io_method e dev4 k4) ?tail5)"
    using s0 s1 s2 s3 s4 by (simp add: device_open_def Let_def)
  with ok no_error have pos: "\<not> f < 0" "\<not> r1 < 0" "\<not> r2 < 0" "\<not> r3 < 0"
    and t5: "and_then (device_open_io_method e dev4 k4) ?tail5 = Inr (0, dev', k')"
    by (auto split: if_splits)
  from t5 obtain r5 dev5 k5 where s5: "device_open_io_method e dev4 k4 = Inr (r5, dev5, k5)"
    by (cases "device_open_io_method e dev4 k4") (auto simp: and_then_def)
  with t5 no_error have p5: "\<not> r5 < 0"
    and t6: "and_then (device_open_queue_buffers e dev5 k5) ?tail6 = Inr (0, dev', k')"
    by (auto simp: and_then_def split: if_splits)
  from t6 obtain r6 dev6 k6 where s6': "device_open_queue_buffers e dev5 k5 = Inr (r6, dev6, k6)"
    by (cases "device_open_queue_buffers e dev5 k5") (auto simp: and_then_def)
  then have "dev6 = dev5"
    by (simp add: device_open_queue_buffers_def queue_loop_frame)
  with s6' have s6: "device_open_queue_buffers e dev5 k5 = Inr (r6, dev5, k6)"
    by simp
  let ?dev7 = "device_open_alloc_picbufs e dev5"
  from t6 s6 no_error have p6: "\<not> r6 < 0"
    and t7: "and_then (device_apply_controls e ?dev7 k6)
               (\<lambda>k8. Inr (0 :: int, ?dev7\<lparr>run := (run ?dev7)\<lparr>run_n_workers :=
                          min_u (run_n_buffers (run ?dev7)) (n_workers ?dev7)\<rparr>\<rparr>, k8))
             = Inr (0, dev', k')"
    by (auto simp: and_then_def Let_def split: if_splits)
  from t7 have s7: "device_apply_controls e ?dev7 k6 = Inr k'"
    and fin: "dev' = ?dev7\<lparr>run := (run ?dev7)\<lparr>run_n_workers :=
                          min_u (run_n_buffers (run ?dev7)) (n_workers ?dev7)\<rparr>\<rparr>"
    by (cases "device_apply_controls e ?dev7 k6"; simp add: and_then_def)+
  from s0 pos(1) s1 pos(2) s2 pos(3) s3 pos(4) s4 s5 p5 s6 p6 s7 fin show thesis
    by (rule that)
qed

section \<open>Streaming controller: switching and events\<close>

text \<open>
  C6.  \<open>device_switch_capturing\<close> called with the current capturing state changes
  nothing, issues no request and returns 0.  Enabling a stopped device issues
  stream-on: if the request fails the function returns -1 and the state stays
  stopped, otherwise the state becomes streaming and the function returns 0.
  Disabling a streaming device issues stream-off and, whatever the request
  returns, leaves the state stopped and returns 0; so disabling always returns 0
  with the state stopped.
\<close>

theorem switch_capturing_spec:
  fixes e :: "'k env"
  shows "(enable = capturing (run dev) \<longrightarrow> device_switch_capturing e dev enable k = (0, dev, k))
    \<and> (\<not> capturing (run dev) \<longrightarrow>
          (let (ret, k') = VIDIOC_STREAMON e k (fd (run dev)) V4L2_BUF_TYPE_VIDEO_CAPTURE
           in device_switch_capturing e dev True k =
                (if ret < 0 then (- 1, dev, k')
                 else (0, dev\<lparr>run := (run dev)\<lparr>capturing := True\<rparr>\<rparr>, k'))))
    \<and> (capturing (run dev) \<longrightarrow>
          device_switch_capturing e dev False k =
            (0, dev\<lparr>run := (run dev)\<lparr>capturing := False\<rparr>\<rparr>,
             snd (VIDIOC_STREAMOFF e k (fd (run dev)) V4L2_BUF_TYPE_VIDEO_CAPTURE)))
    \<and> fst (device_switch_capturing e dev False k) = 0
    \<and> \<not> capturing (run (fst (snd (device_switch_capturing e dev False k))))"
  by (simp add: device_switch_capturing_def Let_def split: prod.splits)

theorem switch_capturing_spec_witness:
  "device_switch_capturing sim_env sim_session False [] = (0, sim_session, [])
   \<and> device_switch_capturing sim_env sim_session True [] =
        (0, sim_session\<lparr>run := (run sim_session)\<lparr>capturing := True\<rparr>\<rparr>, [])
   \<and> device_switch_capturing (sim_env\<lparr>VIDIOC_STREAMON := (\<lambda>k f t. (- 1, k))\<rparr>) sim_session True []
        = (- 1, sim_session, [])
   \<and> device_switch_capturing (sim_env\<lparr>VIDIOC_STREAMOFF := (\<lambda>k f t. (- 1, k))\<rparr>)
        (sim_session\<lparr>run := (run sim_session)\<lparr>capturing := True\<rparr>\<rparr>) False []
        = (0, sim_session\<lparr>run := (run sim_session)\<lparr>capturing := False\<rparr>\<rparr>, [])"
  using switch_capturing_spec [of False sim_session sim_env "[]"]
        switch_capturing_spec [of True sim_session sim_env "[]"]
        switch_capturing_spec [of True sim_session "sim_env\<lparr>VIDIOC_STREAMON := (\<lambda>k f t. (- 1, k))\<rparr>" "[]"]
        switch_capturing_spec [of False "sim_session\<lparr>run := (run sim_session)\<lparr>capturing := True\<rparr>\<rparr>"
           "sim_env\<lparr>VIDIOC_STREAMOFF := (\<lambda>k f t. (- 1, k))\<rparr>" "[]"]
  by simp

text \<open>
  C7.  \<open>device_consume_event\<close> returns -1 exactly when an event was dequeued
  (the request returned 0) and its type is the source-change event.  A dequeued
  end-of-stream event and a dequeued event of any other type return 0, and so
  does a request that dequeued nothing.
\<close>

theorem consume_event_spec:
  fixes e :: "'k env"
  assumes "VIDIOC_DQEVENT e k (fd (run dev)) = (ret, event_type, k')"
  shows "(fst (device_consume_event e dev k) = - 1
            \<longleftrightarrow> ret = 0 \<and> event_type = V4L2_EVENT_SOURCE_CHANGE)
    \<and> (ret = 0 \<and> event_type \<noteq> V4L2_EVENT_SOURCE_CHANGE \<longrightarrow> device_consume_event e dev k = (0, k'))
    \<and> (ret \<noteq> 0 \<longrightarrow> device_consume_event e dev k = (0, k'))"
  using assms by (simp add: device_consume_event_def)

theorem consume_event_spec_witness:
  "device_consume_event sim_env sim_session [] = (0, [])
   \<and> fst (device_consume_event
        (sim_env\<lparr>VIDIOC_DQEVENT := (\<lambda>k f. (0, V4L2_EVENT_SOURCE_CHANGE, k))\<rparr>) sim_session []) = - 1
   \<and> device_consume_event (sim_env\<lparr>VIDIOC_DQEVENT := (\<lambda>k f. (- 1, 0, k))\<rparr>) sim_session []
        = (0, [])"
  using consume_event_spec [of sim_env "[]" sim_session 0 V4L2_EVENT_EOS "[]"]
    consume_event_spec [of "sim_env\<lparr>VIDIOC_DQEVENT := (\<lambda>k f. (0, V4L2_EVENT_SOURCE_CHANGE, k))\<rparr>"
       "[]" sim_session 0 V4L2_EVENT_SOURCE_CHANGE "[]"]
    consume_event_spec [of "sim_env\<lparr>VIDIOC_DQEVENT := (\<lambda>k f. (- 1, 0, k))\<rparr>"
       "[]" sim_session "- 1" 0 "[]"]
  by (simp add: V4L2_EVENT_EOS_def V4L2_EVENT_SOURCE_CHANGE_def)

section \<open>Resolution validation\<close>

text \<open>
  C10.  When \<open>_device_apply_resolution\<close> rejects a width and height, the device
  is returned as it was: in particular the runtime's negotiated width and height
  keep their values.
\<close>

theorem apply_resolution_reject_frame:
  fixes e :: "'k env"
  assumes "fst (device_apply_resolution e dev w h) < 0"
  shows "snd (device_apply_resolution e dev w h) = dev
    \<and> run_width (run (snd (device_apply_resolution e dev w h))) = run_width (run dev)
    \<and> run_height (run (snd (device_apply_resolution e dev w h))) = run_height (run dev)"
proof -
  have "w = 0 \<or> w > VIDEO_MAX_WIDTH e \<or> h = 0 \<or> h > VIDEO_MAX_HEIGHT e"
    using assms by (simp add: device_apply_resolution_def split: if_splits)
  then show ?thesis
    by (simp add: device_apply_resolution_def)
qed

theorem apply_resolution_reject_frame_witness:
  "fst (device_apply_resolution sim_env sim_session 0 1080) < 0
   \<and> snd (device_apply_resolution sim_env sim_session 0 1080) = sim_session
   \<and> run_width (run (snd (device_apply_resolution sim_env sim_session 0 1080))) = 640
   \<and> run_height (run (snd (device_apply_resolution sim_env sim_session 0 1080))) = 480"
proof -
  have rejected: "fst (device_apply_resolution sim_env sim_session 0 1080) < 0"
    by (simp add: device_apply_resolution_def)
  from apply_resolution_reject_frame [OF rejected] rejected show ?thesis
    by simp
qed

section \<open>Grab and release\<close>

text \<open>
  C1.  In an open session whose pool and picture array have \<open>n_buffers\<close> slots,
  \<open>device_grab_buffer\<close> returns -1 and leaves the device exactly as it was when
  the dequeue fails, when the dequeued index is not below \<open>n_buffers\<close>, or when
  the slot of that index is already grabbed.  Otherwise it returns the dequeued
  index (as an \<open>int\<close>, never -1, and the index itself for every pool of at most
  2^31 slots), and in the slot of that index the grabbed flag is set, bytes-used
  is the dequeued count and the stored descriptor is the dequeued one, and the
  picture of that index carries the clock reading.
\<close>

theorem grab_buffer_spec:
  fixes e :: "'k env"
  assumes pool: "length (hw_buffers (run dev)) = unat (run_n_buffers (run dev))"
      and pics: "length (pictures (run dev)) = unat (run_n_buffers (run dev))"
      and dq: "VIDIOC_DQBUF e k (fd (run dev))
                 (zero_v4l2_buffer\<lparr>buf_type := V4L2_BUF_TYPE_VIDEO_CAPTURE,
                                    buf_memory := io_method dev\<rparr>) = (ret, info, k')"
  shows "(ret < 0 \<or> run_n_buffers (run dev) \<le> buf_index info
            \<or> grabbed (hw_buffers (run dev) ! unat (buf_index info))
          \<longrightarrow> device_grab_buffer e dev k = Inr (- 1, dev, k'))
    \<and> (\<not> ret < 0 \<and> buf_index info < run_n_buffers (run dev)
            \<and> \<not> grabbed (hw_buffers (run dev) ! unat (buf_index info))
          \<longrightarrow> (\<exists>dev'. device_grab_buffer e dev k = Inr (sint (buf_index info), dev', k')
                \<and> sint (buf_index info) \<noteq> - 1
                \<and> (run_n_buffers (run dev) \<le> 0x80000000
                      \<longrightarrow> sint (buf_index info) = uint (buf_index info))
                \<and> grabbed (hw_buffers (run dev') ! unat (buf_index info))
                \<and> used (hw_buffers (run dev') ! unat (buf_index info)) = ucast (bytesused info)
                \<and> buf_info (hw_buffers (run dev') ! unat (buf_index info)) = info
                \<and> grab_ts (pictures (run dev') ! unat (buf_index info)) = get_now_monotonic e k'))"
proof (intro conjI impI)
  assume fail: "ret < 0 \<or> run_n_buffers (run dev) \<le> buf_index info
            \<or> grabbed (hw_buffers (run dev) ! unat (buf_index info))"
  show "device_grab_buffer e dev k = Inr (- 1, dev, k')"
  proof (cases "ret < 0 \<or> run_n_buffers (run dev) \<le> buf_index info")
    case True
    then show ?thesis
      using dq by (auto simp: device_grab_buffer_def Let_def)
  next
    case False
    with fail have g: "grabbed (hw_buffers (run dev) ! unat (buf_index info))"
      by blast
    from False have "unat (buf_index info) < length (hw_buffers (run dev))"
      using pool by (simp add: word_less_nat_alt not_le)
    with False g show ?thesis
      using dq by (simp add: device_grab_buffer_def Let_def)
  qed
next
  assume ok: "\<not> ret < 0 \<and> buf_index info < run_n_buffers (run dev)
            \<and> \<not> grabbed (hw_buffers (run dev) ! unat (buf_index info))"
  let ?i = "unat (buf_index info)"
  from ok have lt: "?i < unat (run_n_buffers (run dev))"
    by (simp add: word_less_nat_alt)
  have in_hw: "?i < length (hw_buffers (run dev))" and in_pic: "?i < length (pictures (run dev))"
    using lt pool pics by simp_all
  have not_minus_one: "sint (buf_index info) \<noteq> - 1"
  proof
    assume "sint (buf_index info) = - 1"
    then have "buf_index info = - 1"
      by (rule sint_minus_one)
    with ok show False
      by (simp add: word_order.extremum_strict)
  qed
  have small: "run_n_buffers (run dev) \<le> 0x80000000
                 \<longrightarrow> sint (buf_index info) = uint (buf_index info)"
  proof
    assume "run_n_buffers (run dev) \<le> 0x80000000"
    with ok have "buf_index info < 0x80000000"
      by (meson order_less_le_trans)
    then show "sint (buf_index info) = uint (buf_index info)"
      by (rule sint_small)
  qed
  have "device_grab_buffer e dev k =
          Inr (sint (buf_index info),
               dev\<lparr>run := (run dev)\<lparr>
                     hw_buffers := (hw_buffers (run dev))[?i := (hw_buffers (run dev) ! ?i)\<lparr>grabbed := True,
                                      used := ucast (bytesused info), buf_info := info\<rparr>],
                     pictures := (pictures (run dev))[?i := (pictures (run dev) ! ?i)\<lparr>grab_ts := get_now_monotonic e k'\<rparr>]\<rparr>\<rparr>,
               k')"
    using ok in_hw in_pic dq by (simp add: device_grab_buffer_def Let_def flip: not_less)
  then show "\<exists>dev'. device_grab_buffer e dev k = Inr (sint (buf_index info), dev', k')
                \<and> sint (buf_index info) \<noteq> - 1
                \<and> (run_n_buffers (run dev) \<le> 0x80000000
                      \<longrightarrow> sint (buf_index info) = uint (buf_index info))
                \<and> grabbed (hw_buffers (run dev') ! unat (buf_index info))
                \<and> used (hw_buffers (run dev') ! unat (buf_index info)) = ucast (bytesused info)
                \<and> buf_info (hw_buffers (run dev') ! unat (buf_index info)) = info
                \<and> grab_ts (pictures (run dev') ! unat (buf_index info)) = get_now_monotonic e k'"
    using in_hw in_pic not_minus_one small by simp
qed

theorem grab_buffer_spec_witness:
  "(\<exists>dev'. device_grab_buffer sim_env sim_session [] = Inr (1, dev', [])
      \<and> grabbed (hw_buffers (run dev') ! 1)
      \<and> used (hw_buffers (run dev') ! 1) = 1000
      \<and> grab_ts (pictures (run dev') ! 1) = 42)
   \<and> device_grab_buffer (sim_env\<lparr>VIDIOC_DQBUF := (\<lambda>k f b. (- 1, b, k))\<rparr>) sim_session []
        = Inr (- 1, sim_session, [])
   \<and> device_grab_buffer (sim_env\<lparr>VIDIOC_DQBUF := (\<lambda>k f b. (0, b\<lparr>buf_index := 2\<rparr>, k))\<rparr>)
        sim_session [] = Inr (- 1, sim_session, [])
   \<and> device_grab_buffer sim_env
        (sim_session\<lparr>run := (run sim_session)\<lparr>hw_buffers :=
           [sim_slot, sim_slot\<lparr>grabbed := True\<rparr>]\<rparr>\<rparr>) []
        = Inr (- 1, sim_session\<lparr>run := (run sim_session)\<lparr>hw_buffers :=
           [sim_slot, sim_slot\<lparr>grabbed := True\<rparr>]\<rparr>\<rparr>, [])"
  using grab_buffer_spec [of sim_session sim_env "[]" 0
          "zero_v4l2_buffer\<lparr>buf_type := V4L2_BUF_TYPE_VIDEO_CAPTURE,
              buf_memory := V4L2_MEMORY_MMAP, buf_index := 1, bytesused := 1000\<rparr>" "[]"]
        grab_buffer_spec [of sim_session "sim_env\<lparr>VIDIOC_DQBUF := (\<lambda>k f b. (- 1, b, k))\<rparr>" "[]" "- 1"
          "zero_v4l2_buffer\<lparr>buf_type := V4L2_BUF_TYPE_VIDEO_CAPTURE,
              buf_memory := V4L2_MEMORY_MMAP\<rparr>" "[]"]
        grab_buffer_spec [of sim_session
          "sim_env\<lparr>VIDIOC_DQBUF := (\<lambda>k f b. (0, b\<lparr>buf_index := 2\<rparr>, k))\<rparr>" "[]" 0
          "zero_v4l2_buffer\<lparr>buf_type := V4L2_BUF_TYPE_VIDEO_CAPTURE,
              buf_memory := V4L2_MEMORY_MMAP, buf_index := 2\<rparr>" "[]"]
        grab_buffer_spec [of "sim_session\<lparr>run := (run sim_session)\<lparr>hw_buffers :=
           [sim_slot, sim_slot\<lparr>grabbed := True\<rparr>]\<rparr>\<rparr>" sim_env "[]" 0
          "zero_v4l2_buffer\<lparr>buf_type := V4L2_BUF_TYPE_VIDEO_CAPTURE,
              buf_memory := V4L2_MEMORY_MMAP, buf_index := 1, bytesused := 1000\<rparr>" "[]"]
  by clarsimp

text \<open>
  C2.  For an index below \<open>n_buffers\<close> of an open session,
  \<open>device_release_buffer\<close> returns -1 when the re-enqueue fails, and then the
  slot's grabbed flag and bytes-used are what they were; otherwise it returns 0
  with the flag clear and bytes-used 0.  It does so whether or not the slot was
  grabbed: releasing a free slot returns 0 and leaves it free.
\<close>

theorem release_buffer_spec:
  fixes e :: "'k env"
  assumes valid: "index < run_n_buffers (run dev)"
      and pool: "length (hw_buffers (run dev)) = unat (run_n_buffers (run dev))"
      and q: "VIDIOC_QBUF e k (fd (run dev)) (buf_info (hw_buffers (run dev) ! unat index))
                = (ret, info, k')"
  shows "(ret < 0 \<longrightarrow>
            (\<exists>dev'. device_release_buffer e dev index k = Inr (- 1, dev', k')
               \<and> grabbed (hw_buffers (run dev') ! unat index)
                   = grabbed (hw_buffers (run dev) ! unat index)
               \<and> used (hw_buffers (run dev') ! unat index)
                   = used (hw_buffers (run dev) ! unat index)))
    \<and> (\<not> ret < 0 \<longrightarrow>
            (\<exists>dev'. device_release_buffer e dev index k = Inr (0, dev', k')
               \<and> \<not> grabbed (hw_buffers (run dev') ! unat index)
               \<and> used (hw_buffers (run dev') ! unat index) = 0))
    \<and> (\<not> ret < 0 \<and> \<not> grabbed (hw_buffers (run dev) ! unat index) \<longrightarrow>
            (\<exists>dev'. device_release_buffer e dev index k = Inr (0, dev', k')
               \<and> grabbed (hw_buffers (run dev') ! unat index)
                   = grabbed (hw_buffers (run dev) ! unat index)))"
proof -
  have inside: "unat index < length (hw_buffers (run dev))"
    using valid pool by (simp add: word_less_nat_alt)
  show ?thesis
    using inside q by (simp add: device_release_buffer_def Let_def not_le)
qed

theorem release_buffer_spec_witness:
  "(\<exists>dev'. device_release_buffer sim_env
        (sim_session\<lparr>run := (run sim_session)\<lparr>hw_buffers :=
           [sim_slot, sim_slot\<lparr>grabbed := True, used := 1000\<rparr>]\<rparr>\<rparr>) 1 [] = Inr (0, dev', [])
      \<and> \<not> grabbed (hw_buffers (run dev') ! 1) \<and> used (hw_buffers (run dev') ! 1) = 0)
   \<and> (\<exists>dev'. device_release_buffer (sim_env\<lparr>VIDIOC_QBUF := (\<lambda>k f b. (- 1, b, k))\<rparr>)
        (sim_session\<lparr>run := (run sim_session)\<lparr>hw_buffers :=
           [sim_slot, sim_slot\<lparr>grabbed := True, used := 1000\<rparr>]\<rparr>\<rparr>) 1 [] = Inr (- 1, dev', [])
      \<and> grabbed (hw_buffers (run dev') ! 1) \<and> used (hw_buffers (run dev') ! 1) = 1000)
   \<and> (\<exists>dev'. device_release_buffer sim_env sim_session 1 [] = Inr (0, dev', [])
      \<and> \<not> grabbed (hw_buffers (run dev') ! 1))"
  using release_buffer_spec [of 1 "sim_session\<lparr>run := (run sim_session)\<lparr>hw_buffers :=
           [sim_slot, sim_slot\<lparr>grabbed := True, used := 1000\<rparr>]\<rparr>\<rparr>" sim_env "[]" 0
           zero_v4l2_buffer "[]"]
        release_buffer_spec [of 1 "sim_session\<lparr>run := (run sim_session)\<lparr>hw_buffers :=
           [sim_slot, sim_slot\<lparr>grabbed := True, used := 1000\<rparr>]\<rparr>\<rparr>"
           "sim_env\<lparr>VIDIOC_QBUF := (\<lambda>k f b. (- 1, b, k))\<rparr>" "[]" "- 1" zero_v4l2_buffer "[]"]
        release_buffer_spec [of 1 sim_session sim_env "[]" 0 zero_v4l2_buffer "[]"]
  by clarsimp

section \<open>Control values\<close>

text \<open>What \<open>_device_set_control\<close> does, case by case, with the remainder read
  as divisibility.\<close>

lemma set_control_cases:
  fixes e :: "'k env"
  shows "device_set_control e dev query cid v quiet k =
     (if sint v < sint (minimum query) \<or> sint (maximum query) < sint v then Inr k
      else if step query = 0 \<or> (v = INT_MIN \<and> step query = - 1) then Inl SIGFPE
      else if \<not> sint (step query) dvd sint v then Inr k
      else Inr (snd (snd (VIDIOC_S_CTRL e k (fd (run dev)) \<lparr>ctl_id = cid, ctl_value = v\<rparr>))))"
  by (simp add: device_set_control_def c_rem_def word_sless_alt c_rem_zero_iff
      split: prod.splits)

text \<open>
  C4, as stated, fails: with minimum 1, maximum 9 and step 2 the value 1 is the
  minimum, yet it is skipped and nothing is written (the check is on the value
  itself, not on its distance from the minimum); and with step 0 the value 0 is
  within the bounds and a multiple of the step, yet the division traps.
\<close>

theorem set_control_boundary_counterexample:
  "device_set_control sim_env sim_session
      \<lparr>query_id = V4L2_CID_BRIGHTNESS, minimum = 1, maximum = 9, step = 2,
       default_value = 1, query_flags = 0\<rparr> V4L2_CID_BRIGHTNESS 1 False [] = Inr []
   \<and> device_set_control sim_env sim_session
      \<lparr>query_id = V4L2_CID_BRIGHTNESS, minimum = 0, maximum = 10, step = 0,
       default_value = 0, query_flags = 0\<rparr> V4L2_CID_BRIGHTNESS 0 False [] = Inl SIGFPE"
  by (simp add: set_control_cases)

text \<open>
  C4, amended.  When the reported step is not 0 (and the division is not
  \<open>INT_MIN % -1\<close>), \<open>_device_set_control\<close> issues \<open>VIDIOC_S_CTRL\<close> with the
  value if the value lies within [minimum, maximum] and is a multiple of step,
  and otherwise returns with the kernel state untouched, no request issued.  A
  value on a boundary (minimum, maximum or minimum + step) is treated like any
  other: if it is not itself a multiple of step it is skipped.
\<close>

theorem set_control_amended:
  fixes e :: "'k env"
  assumes "step query \<noteq> 0" and "\<not> (v = INT_MIN \<and> step query = - 1)"
  shows "(sint (minimum query) \<le> sint v \<and> sint v \<le> sint (maximum query)
            \<and> sint (step query) dvd sint v
          \<longrightarrow> device_set_control e dev query cid v quiet k =
                Inr (snd (snd (VIDIOC_S_CTRL e k (fd (run dev)) \<lparr>ctl_id = cid, ctl_value = v\<rparr>))))
    \<and> (\<not> (sint (minimum query) \<le> sint v \<and> sint v \<le> sint (maximum query)
              \<and> sint (step query) dvd sint v)
          \<longrightarrow> device_set_control e dev query cid v quiet k = Inr k)
    \<and> ((v = minimum query \<or> v = maximum query \<or> v = minimum query + step query)
          \<and> \<not> sint (step query) dvd sint v
          \<longrightarrow> device_set_control e dev query cid v quiet k = Inr k)"
  using assms by (auto simp: set_control_cases)

theorem set_control_amended_witness:
  "device_set_control sim_env sim_session
      \<lparr>query_id = V4L2_CID_BRIGHTNESS, minimum = 0, maximum = 10, step = 2,
       default_value = 0, query_flags = 0\<rparr> V4L2_CID_BRIGHTNESS 10 False []
     = Inr [\<lparr>ctl_id = V4L2_CID_BRIGHTNESS, ctl_value = 10\<rparr>]
   \<and> device_set_control sim_env sim_session
      \<lparr>query_id = V4L2_CID_BRIGHTNESS, minimum = 0, maximum = 10, step = 2,
       default_value = 0, query_flags = 0\<rparr> V4L2_CID_BRIGHTNESS 12 False [] = Inr []
   \<and> device_set_control sim_env sim_session
      \<lparr>query_id = V4L2_CID_BRIGHTNESS, minimum = 1, maximum = 9, step = 2,
       default_value = 1, query_flags = 0\<rparr> V4L2_CID_BRIGHTNESS 9 False [] = Inr []"
  using set_control_amended [of "\<lparr>query_id = V4L2_CID_BRIGHTNESS, minimum = 0, maximum = 10, step = 2,
       default_value = 0, query_flags = 0\<rparr>" 10 sim_env sim_session V4L2_CID_BRIGHTNESS False "[]"]
    set_control_amended [of "\<lparr>query_id = V4L2_CID_BRIGHTNESS, minimum = 0, maximum = 10, step = 2,
       default_value = 0, query_flags = 0\<rparr>" 12 sim_env sim_session V4L2_CID_BRIGHTNESS False "[]"]
    set_control_amended [of "\<lparr>query_id = V4L2_CID_BRIGHTNESS, minimum = 1, maximum = 9, step = 2,
       default_value = 1, query_flags = 0\<rparr>" 9 sim_env sim_session V4L2_CID_BRIGHTNESS False "[]"]
  by (simp add: INT_MIN_def)

text \<open>
  C9, as stated, fails: a step other than 0 does not make the validation
  defined.  With step -1 and the value \<open>INT_MIN\<close> within the bounds the quotient
  is not representable, and the remainder traps as the division by 0 does.
\<close>

theorem set_control_overflow_counterexample:
  "step \<lparr>query_id = V4L2_CID_GAIN, minimum = INT_MIN, maximum = 0, step = - 1,
         default_value = 0, query_flags = 0\<rparr> \<noteq> 0
   \<and> device_set_control sim_env sim_session
      \<lparr>query_id = V4L2_CID_GAIN, minimum = INT_MIN, maximum = 0, step = - 1,
       default_value = 0, query_flags = 0\<rparr> V4L2_CID_GAIN INT_MIN False [] = Inl SIGFPE"
  by (simp add: set_control_cases INT_MIN_def)

text \<open>
  C9, amended.  The validation divides by the reported step without a guard: for
  a value within the bounds, the process dies of the division when the step is 0
  and when the value is \<open>INT_MIN\<close> and the step is -1.  When
  the step is not 0 and the division is not \<open>INT_MIN % -1\<close>, the function
  returns, either having skipped the value (kernel state untouched) or having
  issued the write.  The process dies in no other case than a value within the
  bounds with step 0 or with \<open>INT_MIN % -1\<close>.
\<close>

theorem set_control_defined:
  fixes e :: "'k env"
  shows "(sint (minimum query) \<le> sint v \<and> sint v \<le> sint (maximum query)
            \<and> (step query = 0 \<or> (v = INT_MIN \<and> step query = - 1))
          \<longrightarrow> device_set_control e dev query cid v quiet k = Inl SIGFPE)
    \<and> (step query \<noteq> 0 \<and> \<not> (v = INT_MIN \<and> step query = - 1)
          \<longrightarrow> device_set_control e dev query cid v quiet k = Inr k
              \<or> device_set_control e dev query cid v quiet k =
                  Inr (snd (snd (VIDIOC_S_CTRL e k (fd (run dev)) \<lparr>ctl_id = cid, ctl_value = v\<rparr>))))
    \<and> (\<forall>f. device_set_control e dev query cid v quiet k = Inl f
          \<longrightarrow> f = SIGFPE \<and> sint (minimum query) \<le> sint v \<and> sint v \<le> sint (maximum query)
              \<and> (step query = 0 \<or> (v = INT_MIN \<and> step query = - 1)))"
  by (auto simp: set_control_cases)

theorem set_control_defined_witness:
  "device_set_control sim_env sim_session
      \<lparr>query_id = V4L2_CID_GAIN, minimum = 0, maximum = 10, step = 0,
       default_value = 0, query_flags = 0\<rparr> V4L2_CID_GAIN 4 False [] = Inl SIGFPE
   \<and> (device_set_control sim_env sim_session
      \<lparr>query_id = V4L2_CID_GAIN, minimum = 0, maximum = 10, step = 3,
       default_value = 0, query_flags = 0\<rparr> V4L2_CID_GAIN 4 False [] = Inr []
     \<or> device_set_control sim_env sim_session
      \<lparr>query_id = V4L2_CID_GAIN, minimum = 0, maximum = 10, step = 3,
       default_value = 0, query_flags = 0\<rparr> V4L2_CID_GAIN 4 False []
        = Inr [\<lparr>ctl_id = V4L2_CID_GAIN, ctl_value = 4\<rparr>])
   \<and> device_set_control sim_env sim_session
      \<lparr>query_id = V4L2_CID_GAIN, minimum = INT_MIN, maximum = 5, step = - 1,
       default_value = 0, query_flags = 0\<rparr> V4L2_CID_GAIN INT_MIN False [] = Inl SIGFPE"
  using set_control_defined [of "\<lparr>query_id = V4L2_CID_GAIN, minimum = INT_MIN, maximum = 5,
       step = - 1, default_value = 0, query_flags = 0\<rparr>" INT_MIN sim_env sim_session
       V4L2_CID_GAIN False "[]"]
    set_control_defined [of "\<lparr>query_id = V4L2_CID_GAIN, minimum = 0, maximum = 10, step = 0,
       default_value = 0, query_flags = 0\<rparr>" 4 sim_env sim_session V4L2_CID_GAIN False "[]"]
    set_control_defined [of "\<lparr>query_id = V4L2_CID_GAIN, minimum = 0, maximum = 10, step = 3,
       default_value = 0, query_flags = 0\<rparr>" 4 sim_env sim_session V4L2_CID_GAIN False "[]"]
  by (simp add: INT_MIN_def)

section \<open>Open: buffers and workers\<close>

text \<open>The simulated device opens the configuration of \<open>device_init\<close>.\<close>

lemma sim_open: "device_open sim_env sim_dev [] = Inr (0, sim_session, [])"
  by code_simp

lemma min_u_min: "min_u a b = min b a"
  by (auto simp: min_u_def min_def)

text \<open>
  C8.  When \<open>device_open\<close> returns 0, the runtime's buffer count is a count G
  that the device granted in answer to \<open>VIDIOC_REQBUFS\<close>, G is at least 1, the
  effective worker count is the minimum of the configured worker count and G,
  and so it is at most G.  On a device that only ever grants no buffer,
  \<open>device_open\<close> does not return 0.
\<close>

theorem open_worker_count:
  fixes e :: "'k env"
  shows "(device_open e dev k = Inr (0, dev', k') \<longrightarrow>
            1 \<le> run_n_buffers (run dev')
            \<and> run_n_workers (run dev') = min (n_workers dev) (run_n_buffers (run dev'))
            \<and> run_n_workers (run dev') \<le> run_n_buffers (run dev')
            \<and> (\<exists>ka f req ret granted kb.
                  VIDIOC_REQBUFS e ka f req = (ret, granted, kb) \<and> \<not> ret < 0
                  \<and> req_count granted = run_n_buffers (run dev')))
    \<and> ((\<forall>ka f req. req_count (fst (snd (VIDIOC_REQBUFS e ka f req))) = 0)
          \<longrightarrow> device_open e dev k \<noteq> Inr (0, dev', k'))"
proof -
  have main: "1 \<le> run_n_buffers (run dev')
            \<and> run_n_workers (run dev') = min (n_workers dev) (run_n_buffers (run dev'))
            \<and> run_n_workers (run dev') \<le> run_n_buffers (run dev')
            \<and> (\<exists>ka f req ret granted kb.
                  VIDIOC_REQBUFS e ka f req = (ret, granted, kb) \<and> \<not> ret < 0
                  \<and> req_count granted = run_n_buffers (run dev'))"
    if ok: "device_open e dev k = Inr (0, dev', k')"
  proof -
    from ok obtain f k0 r1 dev1 k1 r2 dev2 k2 r3 dev3 k3 dev4 k4 r5 dev5 k5 r6 k6 where
      s1: "device_open_check_cap e (dev\<lparr>run := (run dev)\<lparr>fd := f\<rparr>\<rparr>) k0 = (r1, dev1, k1)"
      and s2: "device_open_dv_timings e dev1 k1 = (r2, dev2, k2)"
      and s3: "device_open_format e dev2 k2 = (r3, dev3, k3)"
      and s4: "device_open_hw_fps e dev3 k3 = (dev4, k4)"
      and s5: "device_open_io_method e dev4 k4 = Inr (r5, dev5, k5)" and p5: "\<not> r5 < 0"
      and fin: "dev' = (device_open_alloc_picbufs e dev5)\<lparr>run :=
              (run (device_open_alloc_picbufs e dev5))\<lparr>run_n_workers :=
                 min_u (run_n_buffers (run (device_open_alloc_picbufs e dev5)))
                       (n_workers (device_open_alloc_picbufs e dev5))\<rparr>\<rparr>"
      by (rule device_open_success)
    have workers: "n_workers dev5 = n_workers dev"
      using open_check_cap_frame [OF s1] open_dv_timings_frame [OF s2] open_format_frame [OF s3]
        open_hw_fps_frame [OF s4] open_io_method_success [OF s5 p5]
      by auto
    from open_io_method_success [OF s5 p5] obtain ret granted kb where
      grant: "VIDIOC_REQBUFS e k4 (fd (run dev4))
             \<lparr>req_count = n_buffers dev4, req_type = V4L2_BUF_TYPE_VIDEO_CAPTURE,
              req_memory = io_method dev4\<rparr> = (ret, granted, kb)" "\<not> ret < 0"
      and count: "1 \<le> req_count granted" "run_n_buffers (run dev5) = req_count granted"
      by blast
    have buffers: "run_n_buffers (run dev') = req_count granted"
      using fin count(2) open_alloc_picbufs_frame [of e dev5] by simp
    have eff: "run_n_workers (run dev') = min (n_workers dev) (req_count granted)"
      using fin count(2) workers open_alloc_picbufs_frame [of e dev5] by (simp add: min_u_min)
    have "req_count granted = run_n_buffers (run dev')"
      using buffers by simp
    with grant have granted: "\<exists>ka f req ret granted kb.
                  VIDIOC_REQBUFS e ka f req = (ret, granted, kb) \<and> \<not> ret < 0
                  \<and> req_count granted = run_n_buffers (run dev')"
      by blast
    from buffers eff count(1) granted show ?thesis
      by simp
  qed
  have zero: "device_open e dev k \<noteq> Inr (0, dev', k')"
    if none: "\<forall>ka f req. req_count (fst (snd (VIDIOC_REQBUFS e ka f req))) = 0"
  proof
    assume "device_open e dev k = Inr (0, dev', k')"
    from main [OF this] obtain ka f req ret granted kb where
      "VIDIOC_REQBUFS e ka f req = (ret, granted, kb)" "req_count granted = run_n_buffers (run dev')"
      "1 \<le> run_n_buffers (run dev')"
      by blast
    with none [rule_format, of ka f req] show False
      by simp
  qed
  from main zero show ?thesis
    by blast
qed

theorem open_worker_count_witness:
  "device_open sim_env sim_dev [] = Inr (0, sim_session, [])
   \<and> run_n_buffers (run sim_session) = 2
   \<and> run_n_workers (run sim_session) = min (n_workers sim_dev) 2
   \<and> device_open (sim_env\<lparr>VIDIOC_REQBUFS := (\<lambda>k f r. (0, r\<lparr>req_count := 0\<rparr>, k))\<rparr>) sim_dev []
        \<noteq> Inr (0, sim_session, [])"
proof -
  have opened: "device_open sim_env sim_dev [] = Inr (0, sim_session, [])"
    by code_simp
  from opened
    open_worker_count [of sim_env sim_dev "[]" sim_session "[]"]
    open_worker_count [of "sim_env\<lparr>VIDIOC_REQBUFS := (\<lambda>k f r. (0, r\<lparr>req_count := 0\<rparr>, k))\<rparr>"
       sim_dev "[]" sim_session "[]"]
  show ?thesis
    by simp
qed

section \<open>Open: format fallback\<close>

lemma format_recognized:
  "format_to_string_nullable fmt \<noteq> None \<longleftrightarrow>
     fmt \<in> {V4L2_PIX_FMT_YUYV, V4L2_PIX_FMT_UYVY, V4L2_PIX_FMT_RGB565, V4L2_PIX_FMT_RGB24,
            V4L2_PIX_FMT_MJPEG, V4L2_PIX_FMT_JPEG}"
  by (simp add: format_to_string_nullable_def FORMATS_def)

lemma open_format_fallback_step:
  fixes e :: "'k env"
  assumes sfmt: "VIDIOC_S_FMT e k (fd (run dev))
            \<lparr>pix_width = run_width (run dev), pix_height = run_height (run dev),
             pixelformat = format dev, pix_field = V4L2_FIELD_ANY, sizeimage = 0\<rparr>
              = (ret, fmt, k1)"
      and granted: "\<not> ret < 0"
      and differs: "pixelformat fmt \<noteq> format dev"
  shows "(pixelformat fmt \<in> {V4L2_PIX_FMT_YUYV, V4L2_PIX_FMT_UYVY, V4L2_PIX_FMT_RGB565,
                             V4L2_PIX_FMT_RGB24, V4L2_PIX_FMT_MJPEG, V4L2_PIX_FMT_JPEG}
            \<and> pix_width fmt \<noteq> 0 \<and> pix_width fmt \<le> VIDEO_MAX_WIDTH e
            \<and> pix_height fmt \<noteq> 0 \<and> pix_height fmt \<le> VIDEO_MAX_HEIGHT e
          \<longrightarrow> (\<exists>dev'. device_open_format e dev k = (0, dev', k1)
                 \<and> run_format (run dev') = pixelformat fmt
                 \<and> run_width (run dev') = pix_width fmt
                 \<and> run_height (run dev') = pix_height fmt))
    \<and> (pixelformat fmt \<notin> {V4L2_PIX_FMT_YUYV, V4L2_PIX_FMT_UYVY, V4L2_PIX_FMT_RGB565,
                             V4L2_PIX_FMT_RGB24, V4L2_PIX_FMT_MJPEG, V4L2_PIX_FMT_JPEG}
          \<longrightarrow> (\<exists>dev'. device_open_format e dev k = (- 1, dev', k1)
                 \<and> run_format (run dev') = run_format (run dev)))"
proof -
  obtain r dev1 where res: "device_apply_resolution e dev (pix_width fmt) (pix_height fmt) = (r, dev1)"
    by (metis surj_pair)
  have unfolded: "device_open_format e dev k =
      (if r < 0 then (- 1, dev1, k1)
       else if pixelformat fmt \<noteq> format dev1
                       \<and> format_to_string_nullable (pixelformat fmt) = None
       then (- 1, dev1, k1)
       else (0, dev1\<lparr>run := (run dev1)\<lparr>run_format := pixelformat fmt,
                                          raw_size := ucast (sizeimage fmt)\<rparr>\<rparr>, k1))"
    using sfmt granted res by (simp add: device_open_format_def)
  have same: "format dev1 = format dev" and kept: "run_format (run dev1) = run_format (run dev)"
    using res by (auto simp: device_apply_resolution_def split: if_splits)
  show ?thesis
  proof (intro conjI impI)
    assume good: "pixelformat fmt \<in> {V4L2_PIX_FMT_YUYV, V4L2_PIX_FMT_UYVY, V4L2_PIX_FMT_RGB565,
                             V4L2_PIX_FMT_RGB24, V4L2_PIX_FMT_MJPEG, V4L2_PIX_FMT_JPEG}
            \<and> pix_width fmt \<noteq> 0 \<and> pix_width fmt \<le> VIDEO_MAX_WIDTH e
            \<and> pix_height fmt \<noteq> 0 \<and> pix_height fmt \<le> VIDEO_MAX_HEIGHT e"
    then have known: "format_to_string_nullable (pixelformat fmt) \<noteq> None"
      by (simp only: format_recognized)
    from good res have accepted: "r = 0" "run_width (run dev1) = pix_width fmt"
        "run_height (run dev1) = pix_height fmt"
      by (auto simp: device_apply_resolution_def not_less [symmetric] split: if_splits)
    with unfolded known show "\<exists>dev'. device_open_format e dev k = (0, dev', k1)
                 \<and> run_format (run dev') = pixelformat fmt
                 \<and> run_width (run dev') = pix_width fmt
                 \<and> run_height (run dev') = pix_height fmt"
      by simp
  next
    assume "pixelformat fmt \<notin> {V4L2_PIX_FMT_YUYV, V4L2_PIX_FMT_UYVY, V4L2_PIX_FMT_RGB565,
                             V4L2_PIX_FMT_RGB24, V4L2_PIX_FMT_MJPEG, V4L2_PIX_FMT_JPEG}"
    then have "format_to_string_nullable (pixelformat fmt) = None"
      using format_recognized [of "pixelformat fmt"] by blast
    with unfolded differs same kept show "\<exists>dev'. device_open_format e dev k = (- 1, dev', k1)
                 \<and> run_format (run dev') = run_format (run dev)"
      by simp
  qed
qed

lemma open_format_success:
  assumes "device_open_format e dev k = (r, dev', k')" and "\<not> r < 0"
  shows "\<exists>ret fmt. VIDIOC_S_FMT e k (fd (run dev))
            \<lparr>pix_width = run_width (run dev), pix_height = run_height (run dev),
             pixelformat = format dev, pix_field = V4L2_FIELD_ANY, sizeimage = 0\<rparr>
              = (ret, fmt, k')
           \<and> \<not> ret < 0 \<and> run_format (run dev') = pixelformat fmt
           \<and> (pixelformat fmt = format dev
                \<or> format_to_string_nullable (pixelformat fmt) \<noteq> None)"
proof -
  let ?req = "\<lparr>pix_width = run_width (run dev), pix_height = run_height (run dev),
             pixelformat = format dev, pix_field = V4L2_FIELD_ANY, sizeimage = 0\<rparr>"
  obtain ret fmt k1 where sfmt: "VIDIOC_S_FMT e k (fd (run dev)) ?req = (ret, fmt, k1)"
    by (metis prod_cases3)
  obtain r0 dev1 where res: "device_apply_resolution e dev (pix_width fmt) (pix_height fmt) = (r0, dev1)"
    by (metis surj_pair)
  have same: "format dev1 = format dev"
    using apply_resolution_frame [OF res] by simp
  have unfolded: "device_open_format e dev k =
      (if ret < 0 then (- 1, dev, k1)
       else if r0 < 0 then (- 1, dev1, k1)
       else if pixelformat fmt \<noteq> format dev
                       \<and> format_to_string_nullable (pixelformat fmt) = None
       then (- 1, dev1, k1)
       else (0, dev1\<lparr>run := (run dev1)\<lparr>run_format := pixelformat fmt,
                                          raw_size := ucast (sizeimage fmt)\<rparr>\<rparr>, k1))"
    using sfmt res same by (simp add: device_open_format_def)
  with assms have "\<not> ret < 0" "k' = k1" "run_format (run dev') = pixelformat fmt"
    "pixelformat fmt = format dev \<or> format_to_string_nullable (pixelformat fmt) \<noteq> None"
    by (auto split: if_splits)
  with sfmt show ?thesis
    by blast
qed

text \<open>
  C5.  Let the format negotiation of open be answered, without failure, with a
  pixel format other than the requested one.  If the granted format is one of
  the six codes of the table (YUYV, UYVY, RGB565, RGB24 and the two JPEG codes)
  and the granted resolution passes the validation, \<open>_device_open_format\<close>
  returns 0 with the granted format recorded in the runtime; if the granted
  format is not in the table it returns -1 and the recorded format is left as it
  was.  For \<open>device_open\<close> as a whole: whenever it returns 0, the format recorded
  in the runtime is one the device granted to a proposal of the configured
  format, and it is the configured format or one of the six; so a grant of an
  unrecognised, different format never ends in a successful open.
\<close>

theorem open_format_fallback:
  fixes e :: "'k env"
  shows "(VIDIOC_S_FMT e k (fd (run dev))
            \<lparr>pix_width = run_width (run dev), pix_height = run_height (run dev),
             pixelformat = format dev, pix_field = V4L2_FIELD_ANY, sizeimage = 0\<rparr>
              = (ret, fmt, k1)
          \<and> \<not> ret < 0 \<and> pixelformat fmt \<noteq> format dev
          \<longrightarrow> (pixelformat fmt \<in> {V4L2_PIX_FMT_YUYV, V4L2_PIX_FMT_UYVY, V4L2_PIX_FMT_RGB565,
                                   V4L2_PIX_FMT_RGB24, V4L2_PIX_FMT_MJPEG, V4L2_PIX_FMT_JPEG}
                  \<and> pix_width fmt \<noteq> 0 \<and> pix_width fmt \<le> VIDEO_MAX_WIDTH e
                  \<and> pix_height fmt \<noteq> 0 \<and> pix_height fmt \<le> VIDEO_MAX_HEIGHT e
                \<longrightarrow> (\<exists>dev'. device_open_format e dev k = (0, dev', k1)
                       \<and> run_format (run dev') = pixelformat fmt
                       \<and> run_width (run dev') = pix_width fmt
                       \<and> run_height (run dev') = pix_height fmt))
            \<and> (pixelformat fmt \<notin> {V4L2_PIX_FMT_YUYV, V4L2_PIX_FMT_UYVY, V4L2_PIX_FMT_RGB565,
                                   V4L2_PIX_FMT_RGB24, V4L2_PIX_FMT_MJPEG, V4L2_PIX_FMT_JPEG}
                \<longrightarrow> (\<exists>dev'. device_open_format e dev k = (- 1, dev', k1)
                       \<and> run_format (run dev') = run_format (run dev))))
    \<and> (device_open e cfg k0 = Inr (0, opened, k')
          \<longrightarrow> (\<exists>ka f req ret fmt kb.
                  VIDIOC_S_FMT e ka f req = (ret, fmt, kb) \<and> \<not> ret < 0
                  \<and> pixelformat req = format cfg
                  \<and> run_format (run opened) = pixelformat fmt
                  \<and> (pixelformat fmt = format cfg
                       \<or> pixelformat fmt \<in> {V4L2_PIX_FMT_YUYV, V4L2_PIX_FMT_UYVY,
                             V4L2_PIX_FMT_RGB565, V4L2_PIX_FMT_RGB24, V4L2_PIX_FMT_MJPEG,
                             V4L2_PIX_FMT_JPEG})))"
proof (intro conjI impI)
  assume "VIDIOC_S_FMT e k (fd (run dev))
            \<lparr>pix_width = run_width (run dev), pix_height = run_height (run dev),
             pixelformat = format dev, pix_field = V4L2_FIELD_ANY, sizeimage = 0\<rparr>
              = (ret, fmt, k1)
          \<and> \<not> ret < 0 \<and> pixelformat fmt \<noteq> format dev"
  then have step: "VIDIOC_S_FMT e k (fd (run dev))
            \<lparr>pix_width = run_width (run dev), pix_height = run_height (run dev),
             pixelformat = format dev, pix_field = V4L2_FIELD_ANY, sizeimage = 0\<rparr>
              = (ret, fmt, k1)" "\<not> ret < 0" "pixelformat fmt \<noteq> format dev"
    by simp_all
  {
    assume "pixelformat fmt \<in> {V4L2_PIX_FMT_YUYV, V4L2_PIX_FMT_UYVY, V4L2_PIX_FMT_RGB565,
                                   V4L2_PIX_FMT_RGB24, V4L2_PIX_FMT_MJPEG, V4L2_PIX_FMT_JPEG}
                  \<and> pix_width fmt \<noteq> 0 \<and> pix_width fmt \<le> VIDEO_MAX_WIDTH e
                  \<and> pix_height fmt \<noteq> 0 \<and> pix_height fmt \<le> VIDEO_MAX_HEIGHT e"
    with open_format_fallback_step [OF step]
    show "\<exists>dev'. device_open_format e dev k = (0, dev', k1)
                       \<and> run_format (run dev') = pixelformat fmt
                       \<and> run_width (run dev') = pix_width fmt
                       \<and> run_height (run dev') = pix_height fmt"
      by blast
  }
  {
    assume "pixelformat fmt \<notin> {V4L2_PIX_FMT_YUYV, V4L2_PIX_FMT_UYVY, V4L2_PIX_FMT_RGB565,
                                   V4L2_PIX_FMT_RGB24, V4L2_PIX_FMT_MJPEG, V4L2_PIX_FMT_JPEG}"
    with open_format_fallback_step [OF step]
    show "\<exists>dev'. device_open_format e dev k = (- 1, dev', k1)
                       \<and> run_format (run dev') = run_format (run dev)"
      by blast
  }
next
  assume ok: "device_open e cfg k0 = Inr (0, opened, k')"
  from ok obtain f ka r1 dev1 k1 r2 dev2 k2 r3 dev3 k3 dev4 k4 r5 dev5 k5 where
    s1: "device_open_check_cap e (cfg\<lparr>run := (run cfg)\<lparr>fd := f\<rparr>\<rparr>) ka = (r1, dev1, k1)"
    and s2: "device_open_dv_timings e dev1 k1 = (r2, dev2, k2)"
    and s3: "device_open_format e dev2 k2 = (r3, dev3, k3)" and p3: "\<not> r3 < 0"
    and s4: "device_open_hw_fps e dev3 k3 = (dev4, k4)"
    and s5: "device_open_io_method e dev4 k4 = Inr (r5, dev5, k5)" and p5: "\<not> r5 < 0"
    and fin: "opened = (device_open_alloc_picbufs e dev5)\<lparr>run :=
              (run (device_open_alloc_picbufs e dev5))\<lparr>run_n_workers :=
                 min_u (run_n_buffers (run (device_open_alloc_picbufs e dev5)))
                       (n_workers (device_open_alloc_picbufs e dev5))\<rparr>\<rparr>"
    by (rule device_open_success)
  have requested: "format dev2 = format cfg"
    using open_check_cap_frame [OF s1] open_dv_timings_frame [OF s2] by simp
  have recorded: "run_format (run opened) = run_format (run dev3)"
    using fin open_alloc_picbufs_frame [of e dev5] open_io_method_success [OF s5 p5]
      open_hw_fps_frame [OF s4]
    by auto
  from open_format_success [OF s3 p3] obtain ret fmt where
    "VIDIOC_S_FMT e k2 (fd (run dev2))
            \<lparr>pix_width = run_width (run dev2), pix_height = run_height (run dev2),
             pixelformat = format dev2, pix_field = V4L2_FIELD_ANY, sizeimage = 0\<rparr>
              = (ret, fmt, k3)"
    "\<not> ret < 0" "run_format (run dev3) = pixelformat fmt"
    "pixelformat fmt = format dev2 \<or> format_to_string_nullable (pixelformat fmt) \<noteq> None"
    by blast
  moreover from this have "pixelformat fmt = format dev2
          \<or> pixelformat fmt \<in> {V4L2_PIX_FMT_YUYV, V4L2_PIX_FMT_UYVY,
                             V4L2_PIX_FMT_RGB565, V4L2_PIX_FMT_RGB24, V4L2_PIX_FMT_MJPEG,
                             V4L2_PIX_FMT_JPEG}"
    using format_recognized [of "pixelformat fmt"] by blast
  ultimately have
    "VIDIOC_S_FMT e k2 (fd (run dev2))
            \<lparr>pix_width = run_width (run dev2), pix_height = run_height (run dev2),
             pixelformat = format cfg, pix_field = V4L2_FIELD_ANY, sizeimage = 0\<rparr>
              = (ret, fmt, k3)
     \<and> \<not> ret < 0
     \<and> pixelformat \<lparr>pix_width = run_width (run dev2), pix_height = run_height (run dev2),
             pixelformat = format cfg, pix_field = V4L2_FIELD_ANY, sizeimage = 0\<rparr> = format cfg
     \<and> run_format (run opened) = pixelformat fmt
     \<and> (pixelformat fmt = format cfg
          \<or> pixelformat fmt \<in> {V4L2_PIX_FMT_YUYV, V4L2_PIX_FMT_UYVY,
                             V4L2_PIX_FMT_RGB565, V4L2_PIX_FMT_RGB24, V4L2_PIX_FMT_MJPEG,
                             V4L2_PIX_FMT_JPEG})"
    using requested recorded by simp
  then show "\<exists>ka f req ret fmt kb.
                  VIDIOC_S_FMT e ka f req = (ret, fmt, kb) \<and> \<not> ret < 0
                  \<and> pixelformat req = format cfg
                  \<and> run_format (run opened) = pixelformat fmt
                  \<and> (pixelformat fmt = format cfg
                       \<or> pixelformat fmt \<in> {V4L2_PIX_FMT_YUYV, V4L2_PIX_FMT_UYVY,
                             V4L2_PIX_FMT_RGB565, V4L2_PIX_FMT_RGB24, V4L2_PIX_FMT_MJPEG,
                             V4L2_PIX_FMT_JPEG})"
    by blast
qed

theorem open_format_fallback_witness:
  "(\<exists>dev'. device_open_format
       (sim_env\<lparr>VIDIOC_S_FMT := (\<lambda>k f p. (0, p\<lparr>pix_width := 1920, pix_height := 1080,
                  pixelformat := V4L2_PIX_FMT_MJPEG, sizeimage := 4147200\<rparr>, k))\<rparr>)
       sim_session [] = (0, dev', [])
      \<and> run_format (run dev') = V4L2_PIX_FMT_MJPEG
      \<and> run_width (run dev') = 1920 \<and> run_height (run dev') = 1080)
   \<and> (\<exists>dev'. device_open_format
       (sim_env\<lparr>VIDIOC_S_FMT := (\<lambda>k f p. (0, p\<lparr>pix_width := 1920, pix_height := 1080,
                  pixelformat := v4l2_fourcc CHR ''H'' CHR ''2'' CHR ''6'' CHR ''4'',
                  sizeimage := 4147200\<rparr>, k))\<rparr>)
       sim_session [] = (- 1, dev', [])
      \<and> run_format (run dev') = V4L2_PIX_FMT_YUYV)
   \<and> device_open sim_env sim_dev [] = Inr (0, sim_session, [])
   \<and> run_format (run sim_session) = format sim_dev"
  using open_format_fallback [of
      "sim_env\<lparr>VIDIOC_S_FMT := (\<lambda>k f p. (0, p\<lparr>pix_width := 1920, pix_height := 1080,
                  pixelformat := V4L2_PIX_FMT_MJPEG, sizeimage := 4147200\<rparr>, k))\<rparr>"
      "[]" sim_session 0
      "\<lparr>pix_width = 1920, pix_height = 1080, pixelformat = V4L2_PIX_FMT_MJPEG,
        pix_field = V4L2_FIELD_ANY, sizeimage = 4147200\<rparr>" "[]" sim_dev "[]" sim_session "[]"]
    open_format_fallback [of
      "sim_env\<lparr>VIDIOC_S_FMT := (\<lambda>k f p. (0, p\<lparr>pix_width := 1920, pix_height := 1080,
                  pixelformat := v4l2_fourcc CHR ''H'' CHR ''2'' CHR ''6'' CHR ''4'',
                  sizeimage := 4147200\<rparr>, k))\<rparr>"
      "[]" sim_session 0
      "\<lparr>pix_width = 1920, pix_height = 1080,
        pixelformat = v4l2_fourcc CHR ''H'' CHR ''2'' CHR ''6'' CHR ''4'',
        pix_field = V4L2_FIELD_ANY, sizeimage = 4147200\<rparr>" "[]" sim_dev "[]" sim_session "[]"]
    open_format_fallback [of sim_env "[]" sim_session 0
      "\<lparr>pix_width = 640, pix_height = 480, pixelformat = V4L2_PIX_FMT_YUYV,
        pix_field = V4L2_FIELD_ANY, sizeimage = 614400\<rparr>" "[]" sim_dev "[]" sim_session "[]"]
    sim_open
  by (simp add: v4l2_fourcc_def V4L2_PIX_FMT_YUYV_def V4L2_PIX_FMT_UYVY_def
      V4L2_PIX_FMT_RGB565_def V4L2_PIX_FMT_RGB24_def V4L2_PIX_FMT_MJPEG_def V4L2_PIX_FMT_JPEG_def)

section \<open>Open: where the resolution is validated\<close>

text \<open>The validation rejects exactly a zero or too large width or height.  The
  timing-derived and the negotiated resolution go through it and a rejection
  ends the step with -1.\<close>

lemma apply_resolution_rejects_iff:
  "fst (device_apply_resolution e dev w h) < 0 \<longleftrightarrow>
     w = 0 \<or> w > VIDEO_MAX_WIDTH e \<or> h = 0 \<or> h > VIDEO_MAX_HEIGHT e"
  by (simp add: device_apply_resolution_def)

lemma timing_derived_resolution_checked:
  assumes "VIDIOC_QUERY_DV_TIMINGS e k (fd (run dev))
             \<lparr>bt_width = 0, bt_height = 0, pixelclock = 0\<rparr> = (0, dv, k1)"
      and "VIDIOC_S_DV_TIMINGS e k1 (fd (run dev)) dv = (ret, dv', k2)" and "\<not> ret < 0"
      and "bt_width dv' = 0 \<or> bt_width dv' > VIDEO_MAX_WIDTH e
           \<or> bt_height dv' = 0 \<or> bt_height dv' > VIDEO_MAX_HEIGHT e"
  shows "device_apply_dv_timings e dev k = (- 1, dev, k2)"
  using assms by (simp add: device_apply_dv_timings_def device_apply_resolution_def)

lemma negotiated_resolution_checked:
  assumes "VIDIOC_S_FMT e k (fd (run dev))
            \<lparr>pix_width = run_width (run dev), pix_height = run_height (run dev),
             pixelformat = format dev, pix_field = V4L2_FIELD_ANY, sizeimage = 0\<rparr>
              = (ret, fmt, k1)"
      and "\<not> ret < 0"
      and "pix_width fmt = 0 \<or> pix_width fmt > VIDEO_MAX_WIDTH e
           \<or> pix_height fmt = 0 \<or> pix_height fmt > VIDEO_MAX_HEIGHT e"
  shows "device_open_format e dev k = (- 1, dev, k1)"
  using assms by (simp add: device_open_format_def device_apply_resolution_def)

text \<open>The configured resolution goes through it too, but the result is dropped:
  without DV timings the step returns 0 whatever the configured resolution is.\<close>

lemma desired_resolution_unchecked:
  assumes "\<not> dv_timings dev"
  shows "fst (device_open_dv_timings e dev k) = 0"
proof -
  obtain r dev1 where res: "device_apply_resolution e dev (width dev) (height dev) = (r, dev1)"
    by (metis surj_pair)
  with assms have "\<not> dv_timings dev1"
    using apply_resolution_frame [OF res] by simp
  with res show ?thesis
    by (simp add: device_open_dv_timings_def)
qed

text \<open>
  C3 says that a zero or too large width or height is rejected with an error that
  aborts open on every path, the configured resolution included.  On the
  simulated device a configured width of 0, and one of 20000 (above the ceiling
  10240), are rejected by \<open>_device_apply_resolution\<close>, and \<open>device_open\<close> goes on
  and returns 0, with the 640x480 that the driver granted.
\<close>

theorem open_accepts_rejected_desired_resolution:
  "fst (device_apply_resolution sim_env (sim_dev\<lparr>width := 0\<rparr>)
          (width (sim_dev\<lparr>width := 0\<rparr>)) (height (sim_dev\<lparr>width := 0\<rparr>))) = - 1
   \<and> device_open sim_env (sim_dev\<lparr>width := 0\<rparr>) [] = Inr (0, sim_session\<lparr>width := 0\<rparr>, [])
   \<and> fst (device_apply_resolution sim_env (sim_dev\<lparr>width := 20000\<rparr>)
          (width (sim_dev\<lparr>width := 20000\<rparr>)) (height (sim_dev\<lparr>width := 20000\<rparr>))) = - 1
   \<and> device_open sim_env (sim_dev\<lparr>width := 20000\<rparr>) []
        = Inr (0, sim_session\<lparr>width := 20000\<rparr>, [])"
  by code_simp

end
